theory Spec2Isabelle
  imports Complex_Main
begin

section \<open>Data model\<close>

text \<open>
  The repository holds three versions of the application component next to the shared
  type declarations, the anchor resolver, the asset selector and the sticker canvas:
  \<^item> \<^verbatim>\<open>src/unnamed/part_004\<close>: the mirror without the coin game; definitions taken from it
    carry no suffix;
  \<^item> lines 788 to 1753 of \<^verbatim>\<open>src/unnamed/part_003\<close>, the second component of that file: the
    same frame loop with the coin game added. Where its text is equal to that of part_004
    one definition serves both; where it differs the definition carries the suffix \<open>_p3b\<close>;
  \<^item> lines 1 to 787 of \<^verbatim>\<open>src/unnamed/part_003\<close>: a rewritten component; suffix \<open>_p3a\<close>.

  A JavaScript \<open>number\<close> is modelled as a real number (no rounding, no NaN, no infinities).
  An optional field is an \<open>option\<close>. Record fields carry a prefix because several
  interfaces of \<^verbatim>\<open>src/types.ts\<close> share the field names \<open>id\<close>, \<open>x\<close>, \<open>y\<close>, \<open>category\<close>.
\<close>

datatype Category = Hats | Glasses | Tops | Hair | Accessories | Faces

datatype AnchorType = AHead | AEyes | ABody | AFace | ANone

datatype StickerType = Emoji | Svg

record Vec2 =
  v_x :: real
  v_y :: real

record StickerItem =
  s_id :: string
  s_type :: StickerType
  s_content :: string
  s_category :: Category
  s_x :: real
  s_y :: real
  s_scale :: real
  s_rotation :: real
  s_opacity :: "real option"
  s_anchorType :: AnchorType
  s_anchorOffset :: Vec2
  s_baseScale :: real
  s_baseRotation :: real
  s_createdAt :: "real option"
  s_lifespan :: "real option"

record Asset =
  a_id :: string
  a_type :: StickerType
  a_content :: string
  a_category :: Category
  a_label :: string
  a_anchorType :: AnchorType
  a_defaultScale :: real
  a_defaultOffsetY :: "real option"
  a_effectItems :: "string list option"

text \<open>The string a value of the union type \<open>AnchorType\<close> stands for.\<close>

fun anchorTypeStr :: "AnchorType \<Rightarrow> string" where
  "anchorTypeStr AHead = ''head''"
| "anchorTypeStr AEyes = ''eyes''"
| "anchorTypeStr ABody = ''body''"
| "anchorTypeStr AFace = ''face''"
| "anchorTypeStr ANone = ''none''"

text \<open>
  JavaScript truthiness of an optional number (\<open>undefined\<close> and \<open>0\<close> are falsy) and of a
  string or nullable string (\<open>null\<close> and the empty string are falsy).
\<close>

fun truthyNum :: "real option \<Rightarrow> bool" where
  "truthyNum None = False"
| "truthyNum (Some v) = (v \<noteq> 0)"

fun truthyStr :: "string option \<Rightarrow> bool" where
  "truthyStr None = False"
| "truthyStr (Some s) = (s \<noteq> [])"

text \<open>\<open>a || b\<close> on an optional number with a numeric default.\<close>

fun orElse :: "real option \<Rightarrow> real \<Rightarrow> real" where
  "orElse None d = d"
| "orElse (Some v) d = (if v \<noteq> 0 then v else d)"

section \<open>Anchor resolver (\<^verbatim>\<open>getAnchorData\<close>, src/unnamed/part_000)\<close>

text \<open>
  Reading a property of \<open>undefined\<close> throws a \<open>TypeError\<close>; a function that can throw returns a
  sum whose left injection is the error. An array read \<open>xs[i]\<close> outside the array gives
  \<open>undefined\<close>, here \<open>None\<close>.
\<close>

datatype error = TypeError

record NormalizedLandmark =
  lm_x :: real
  lm_y :: real

record FaceLandmarkerResult =
  faceLandmarks :: "NormalizedLandmark list list"

record AnchorData =
  ad_x :: real
  ad_y :: real
  ad_scale :: real
  ad_rotation :: real

definition elemAt :: "'a list \<Rightarrow> nat \<Rightarrow> 'a option" where
  "elemAt xs i = (if i < length xs then Some (xs ! i) else None)"

definition hypot :: "real \<Rightarrow> real \<Rightarrow> real" where
  "hypot a b = sqrt (a * a + b * b)"

text \<open>\<open>Math.atan2(y, x)\<close>: the angle of the point \<open>(x, y)\<close>, in radians, \<open>0\<close> at the origin.\<close>

definition atan2 :: "real \<Rightarrow> real \<Rightarrow> real" where
  "atan2 y x =
     (if 0 < x then arctan (y / x)
      else if x < 0 then (if 0 \<le> y then arctan (y / x) + pi else arctan (y / x) - pi)
      else if 0 < y then pi / 2
      else if y < 0 then - (pi / 2)
      else 0)"

definition getAnchorData :: "FaceLandmarkerResult \<Rightarrow> string \<Rightarrow> error + AnchorData option" where
  "getAnchorData result anchorType =
     (case faceLandmarks result of
        [] \<Rightarrow> Inr None
      | landmarks # _ \<Rightarrow>
          (case (elemAt landmarks 454, elemAt landmarks 234, elemAt landmarks 263, elemAt landmarks 33) of
             (Some rightCheek, Some leftCheek, Some rightEye, Some leftEye) \<Rightarrow>
               (let faceWidth = hypot (lm_x rightCheek - lm_x leftCheek)
                                      (lm_y rightCheek - lm_y leftCheek);
                    angleRad = atan2 (lm_y rightEye - lm_y leftEye) (lm_x rightEye - lm_x leftEye);
                    angleDeg = angleRad * (180 / pi)
                in
                  if anchorType = ''eyes'' then
                    Inr (Some \<lparr>ad_x = (lm_x leftEye + lm_x rightEye) / 2,
                               ad_y = (lm_y leftEye + lm_y rightEye) / 2,
                               ad_scale = faceWidth, ad_rotation = angleDeg\<rparr>)
                  else if anchorType = ''head'' then
                    (case elemAt landmarks 10 of
                       None \<Rightarrow> Inl TypeError
                     | Some topHead \<Rightarrow>
                         Inr (Some \<lparr>ad_x = lm_x topHead, ad_y = lm_y topHead,
                                    ad_scale = faceWidth, ad_rotation = angleDeg\<rparr>))
                  else if anchorType = ''face'' then
                    (case elemAt landmarks 1 of
                       None \<Rightarrow> Inl TypeError
                     | Some noseTip \<Rightarrow>
                         Inr (Some \<lparr>ad_x = lm_x noseTip, ad_y = lm_y noseTip,
                                    ad_scale = faceWidth, ad_rotation = angleDeg\<rparr>))
                  else if anchorType = ''body'' then
                    (case elemAt landmarks 152 of
                       None \<Rightarrow> Inl TypeError
                     | Some chin \<Rightarrow>
                         Inr (Some \<lparr>ad_x = lm_x chin, ad_y = lm_y chin,
                                    ad_scale = faceWidth, ad_rotation = angleDeg\<rparr>))
                  else Inr None)
           | _ \<Rightarrow> Inl TypeError))"

section \<open>Properties of the anchor resolver\<close>

lemma elemAt_in_range: "i < length xs \<Longrightarrow> elemAt xs i = Some (xs ! i)"
  by (simp add: elemAt_def)

lemma elemAt_out_of_range: "length xs \<le> i \<Longrightarrow> elemAt xs i = None"
  by (simp add: elemAt_def)

lemma getAnchorData_no_face: "faceLandmarks result = [] \<Longrightarrow> getAnchorData result t = Inr None"
  by (simp add: getAnchorData_def)

lemma getAnchorData_unknown:
  assumes "faceLandmarks result = landmarks # rest" and "454 < length landmarks"
    and "t \<noteq> ''head''" and "t \<noteq> ''eyes''" and "t \<noteq> ''face''" and "t \<noteq> ''body''"
  shows "getAnchorData result t = Inr None"
  using assms by (simp add: getAnchorData_def elemAt_in_range Let_def)

text \<open>
  Outside the detector's contract (a landmark set with fewer than 455 points) the reads of
  the cheek landmarks throw before the selector is looked at.
\<close>

lemma getAnchorData_short_landmarks:
  "faceLandmarks result = landmarks # rest \<Longrightarrow> length landmarks \<le> 454 \<Longrightarrow>
   getAnchorData result t = Inl TypeError"
  by (simp add: getAnchorData_def elemAt_out_of_range)

text \<open>
  Claim C9. For every face-landmark result whose landmark sets have the detector's size
  (at least the 455 points the resolver reads), \<open>getAnchorData\<close> returns \<open>null\<close>, and does not
  throw, when the selector is not one of head, eyes, face, body; and it returns \<open>null\<close>
  for every selector when the result holds no face landmarks.
\<close>

theorem getAnchorData_null_on_unknown_or_no_face:
  "(faceLandmarks result = [] \<longrightarrow> getAnchorData result t = Inr None) \<and>
   ((\<forall>landmarks \<in> set (faceLandmarks result). 454 < length landmarks) \<and>
    t \<notin> {''head'', ''eyes'', ''face'', ''body''} \<longrightarrow> getAnchorData result t = Inr None)"
proof (cases "faceLandmarks result")
  case Nil
  then show ?thesis by (simp add: getAnchorData_no_face)
next
  case (Cons landmarks rest)
  then show ?thesis
    by (auto intro!: getAnchorData_unknown [where landmarks = landmarks and rest = rest])
qed

theorem getAnchorData_null_witness:
  "getAnchorData \<lparr>faceLandmarks = []\<rparr> ''head'' = Inr None \<and>
   getAnchorData \<lparr>faceLandmarks = [replicate 478 \<lparr>lm_x = 1 / 2, lm_y = 1 / 2\<rparr>]\<rparr> ''none'' = Inr None"
  using getAnchorData_null_on_unknown_or_no_face [of "\<lparr>faceLandmarks = []\<rparr>" "''head''"]
    getAnchorData_null_on_unknown_or_no_face
      [of "\<lparr>faceLandmarks = [replicate 478 \<lparr>lm_x = 1 / 2, lm_y = 1 / 2\<rparr>]\<rparr>" "''none''"]
  by simp

text \<open>
  Without the size condition the claim fails: on a result whose one landmark set is empty
  the resolver throws for the selector \<open>none\<close>.
\<close>

theorem getAnchorData_throws_counterexample:
  "getAnchorData \<lparr>faceLandmarks = [[]]\<rparr> ''none'' = Inl TypeError"
  by (simp add: getAnchorData_def elemAt_def)

section \<open>Sticker store operations\<close>

text \<open>
  The store is the list held by \<open>useState<StickerItem[]>([])\<close>; every mutation is a
  \<open>setStickers\<close> call that replaces the whole list. Identifiers made from \<open>Date.now()\<close> and
  \<open>Math.random()\<close> are arguments of the model, and so is the asset catalogue \<open>ASSETS\<close> of
  \<^verbatim>\<open>src/types.ts\<close>: what is proved holds for every catalogue, the shipped one included.
\<close>

record Window =
  innerWidth :: real
  innerHeight :: real

definition isFace :: "StickerItem \<Rightarrow> bool" where
  "isFace s = (s_category s = Faces)"

definition faceCount :: "StickerItem list \<Rightarrow> nat" where
  "faceCount stickers = length (filter isFace stickers)"

text \<open>\<open>handleAddSticker\<close> (part_004 lines 503 to 529, part_003 lines 1385 to 1411).\<close>

definition newItem_handleAddSticker ::
  "Window \<Rightarrow> Asset \<Rightarrow> string \<Rightarrow> real option \<Rightarrow> real option \<Rightarrow> StickerItem" where
  "newItem_handleAddSticker win asset newId spawnX spawnY =
     \<lparr>s_id = newId, s_type = a_type asset, s_content = a_content asset,
      s_category = a_category asset,
      s_x = orElse spawnX (innerWidth win / 2),
      s_y = orElse spawnY (innerHeight win / 2),
      s_scale = a_defaultScale asset, s_rotation = 0, s_opacity = None,
      s_anchorType = a_anchorType asset,
      s_anchorOffset = \<lparr>v_x = 0, v_y = orElse (a_defaultOffsetY asset) 0 * 100\<rparr>,
      s_baseScale = a_defaultScale asset, s_baseRotation = 0,
      s_createdAt = None, s_lifespan = None\<rparr>"

definition handleAddSticker ::
  "Window \<Rightarrow> Asset \<Rightarrow> string \<Rightarrow> real option \<Rightarrow> real option \<Rightarrow>
   StickerItem list \<Rightarrow> StickerItem list" where
  "handleAddSticker win asset newId spawnX spawnY prev =
     (let newItem = newItem_handleAddSticker win asset newId spawnX spawnY
      in if a_category asset = Faces
         then filter (\<lambda>s. s_category s \<noteq> Faces) prev @ [newItem]
         else prev @ [newItem])"

text \<open>
  \<open>handleSelectAsset\<close> (part_003 lines 106 to 128); \<open>stamp\<close> is the decimal text of
  \<open>Date.now()\<close>.
\<close>

definition newSticker_handleSelectAsset :: "Window \<Rightarrow> Asset \<Rightarrow> string \<Rightarrow> StickerItem" where
  "newSticker_handleSelectAsset win asset stamp =
     \<lparr>s_id = a_id asset @ ''-'' @ stamp, s_type = a_type asset, s_content = a_content asset,
      s_category = a_category asset,
      s_x = innerWidth win / 2, s_y = innerHeight win / 2,
      s_scale = a_defaultScale asset, s_rotation = 0, s_opacity = None,
      s_anchorType = a_anchorType asset,
      s_anchorOffset = \<lparr>v_x = 0, v_y = orElse (a_defaultOffsetY asset) 0\<rparr>,
      s_baseScale = a_defaultScale asset, s_baseRotation = 0,
      s_createdAt = None, s_lifespan = None\<rparr>"

definition handleSelectAsset ::
  "Window \<Rightarrow> Asset \<Rightarrow> string \<Rightarrow> StickerItem list \<Rightarrow> StickerItem list" where
  "handleSelectAsset win asset stamp prev =
     (let newSticker = newSticker_handleSelectAsset win asset stamp
      in if a_category asset = Faces
         then filter (\<lambda>s. s_category s \<noteq> Faces) prev @ [newSticker]
         else prev @ [newSticker])"

text \<open>\<open>Array.prototype.findIndex\<close>: the first index whose element satisfies \<open>P\<close>, or \<open>-1\<close>.\<close>

fun findIndex :: "('a \<Rightarrow> bool) \<Rightarrow> 'a list \<Rightarrow> int" where
  "findIndex P [] = - 1"
| "findIndex P (x # xs) =
     (if P x then 0 else (let i = findIndex P xs in if i < 0 then - 1 else i + 1))"

text \<open>
  The index of the next face asset, shared by the versions of \<open>cycleAnimalFace\<close>. With no
  face asset in the catalogue the remainder is \<open>NaN\<close>, the array read gives \<open>undefined\<close>
  and reading \<open>nextAsset.type\<close> throws; \<open>elemAt\<close> on the empty list gives that \<open>None\<close>.
\<close>

definition nextFaceAsset :: "Asset list \<Rightarrow> StickerItem list \<Rightarrow> Asset option" where
  "nextFaceAsset assets prev =
     (let faceAssets = filter (\<lambda>a. a_category a = Faces) assets;
          nextIndex =
            (case find (\<lambda>s. s_category s = Faces) prev of
               None \<Rightarrow> 0
             | Some currentFace \<Rightarrow>
                 (findIndex (\<lambda>a. a_content a = s_content currentFace) faceAssets + 1)
                   mod int (length faceAssets))
      in elemAt faceAssets (nat nextIndex))"

text \<open>\<open>cycleAnimalFace\<close> (part_004 lines 439 to 476, part_003 lines 1323 to 1358).\<close>

definition cycleAnimalFace ::
  "Asset list \<Rightarrow> Window \<Rightarrow> string \<Rightarrow> StickerItem list \<Rightarrow> error + StickerItem list" where
  "cycleAnimalFace assets win newId prev =
     (case nextFaceAsset assets prev of
        None \<Rightarrow> Inl TypeError
      | Some nextAsset \<Rightarrow>
          (let others = filter (\<lambda>s. s_category s \<noteq> Faces) prev;
               newFace = \<lparr>s_id = newId, s_type = a_type nextAsset,
                          s_content = a_content nextAsset, s_category = a_category nextAsset,
                          s_x = innerWidth win / 2, s_y = innerHeight win / 2,
                          s_scale = a_defaultScale nextAsset, s_rotation = 0, s_opacity = None,
                          s_anchorType = a_anchorType nextAsset,
                          s_anchorOffset = \<lparr>v_x = 0, v_y = 0\<rparr>,
                          s_baseScale = a_defaultScale nextAsset, s_baseRotation = 0,
                          s_createdAt = None, s_lifespan = None\<rparr>
           in Inr (others @ [newFace])))"

text \<open>\<open>cycleAnimalFace\<close> of the rewritten component (part_003 lines 130 to 159).\<close>

definition cycleAnimalFace_p3a ::
  "Asset list \<Rightarrow> string \<Rightarrow> StickerItem list \<Rightarrow> error + StickerItem list" where
  "cycleAnimalFace_p3a assets stamp prev =
     (case nextFaceAsset assets prev of
        None \<Rightarrow> Inl TypeError
      | Some nextAsset \<Rightarrow>
          (let others = filter (\<lambda>s. s_category s \<noteq> Faces) prev;
               newFace = \<lparr>s_id = ''face-'' @ stamp, s_type = a_type nextAsset,
                          s_content = a_content nextAsset, s_category = Faces,
                          s_x = 0, s_y = 0,
                          s_scale = a_defaultScale nextAsset, s_rotation = 0, s_opacity = None,
                          s_anchorType = a_anchorType nextAsset,
                          s_anchorOffset = \<lparr>v_x = 0, v_y = orElse (a_defaultOffsetY nextAsset) 0\<rparr>,
                          s_baseScale = a_defaultScale nextAsset, s_baseRotation = 0,
                          s_createdAt = None, s_lifespan = None\<rparr>
           in Inr (others @ [newFace])))"

text \<open>\<open>handleDeleteSticker\<close> and the clearing \<open>setStickers([])\<close>, the same in all versions.\<close>

definition handleDeleteSticker :: "string \<Rightarrow> StickerItem list \<Rightarrow> StickerItem list" where
  "handleDeleteSticker ident prev = filter (\<lambda>s. s_id s \<noteq> ident) prev"

definition clearStickers :: "StickerItem list \<Rightarrow> StickerItem list" where
  "clearStickers prev = []"

text \<open>A sequence of store operations; a thrown error ends the run.\<close>

datatype StoreOp =
    AddSticker Asset string "real option" "real option"
  | SelectAsset Asset string
  | CycleFace string
  | CycleFace_p3a string
  | DeleteSticker string
  | ClearAll

fun applyOp :: "Asset list \<Rightarrow> Window \<Rightarrow> StoreOp \<Rightarrow> StickerItem list \<Rightarrow> error + StickerItem list" where
  "applyOp assets win (AddSticker asset newId spawnX spawnY) prev =
     Inr (handleAddSticker win asset newId spawnX spawnY prev)"
| "applyOp assets win (SelectAsset asset stamp) prev = Inr (handleSelectAsset win asset stamp prev)"
| "applyOp assets win (CycleFace newId) prev = cycleAnimalFace assets win newId prev"
| "applyOp assets win (CycleFace_p3a stamp) prev = cycleAnimalFace_p3a assets stamp prev"
| "applyOp assets win (DeleteSticker ident) prev = Inr (handleDeleteSticker ident prev)"
| "applyOp assets win ClearAll prev = Inr (clearStickers prev)"

fun runOps :: "Asset list \<Rightarrow> Window \<Rightarrow> StoreOp list \<Rightarrow> StickerItem list \<Rightarrow> error + StickerItem list" where
  "runOps assets win [] store = Inr store"
| "runOps assets win (op # ops) store =
     (case applyOp assets win op store of
        Inl e \<Rightarrow> Inl e
      | Inr store' \<Rightarrow> runOps assets win ops store')"

section \<open>The single-face invariant\<close>

lemma faceCount_filter_nonfaces: "faceCount (filter (\<lambda>s. s_category s \<noteq> Faces) prev) = 0"
  by (induction prev) (simp_all add: faceCount_def isFace_def)

lemma faceCount_append: "faceCount (xs @ ys) = faceCount xs + faceCount ys"
  by (simp add: faceCount_def)

lemma faceCount_single: "faceCount [s] = (if s_category s = Faces then 1 else 0)"
  by (simp add: faceCount_def isFace_def)

lemma faceCount_filter_le: "faceCount (filter P prev) \<le> faceCount prev"
proof (induction prev)
  case Nil
  then show ?case by simp
next
  case (Cons s prev)
  then show ?case by (simp add: faceCount_def)
qed

lemma elemAt_member: "elemAt xs i = Some a \<Longrightarrow> a \<in> set xs"
  by (auto simp add: elemAt_def split: if_splits)

lemma nextFaceAsset_is_face: "nextFaceAsset assets prev = Some a \<Longrightarrow> a_category a = Faces"
proof -
  assume h: "nextFaceAsset assets prev = Some a"
  then have "a \<in> set (filter (\<lambda>a. a_category a = Faces) assets)"
    unfolding nextFaceAsset_def Let_def by (rule elemAt_member)
  then show ?thesis by simp
qed

lemma handleAddSticker_faceCount:
  "faceCount prev \<le> 1 \<Longrightarrow> faceCount (handleAddSticker win asset newId sx sy prev) \<le> 1"
  by (simp add: handleAddSticker_def Let_def faceCount_append faceCount_single
      faceCount_filter_nonfaces newItem_handleAddSticker_def)

lemma handleSelectAsset_faceCount:
  "faceCount prev \<le> 1 \<Longrightarrow> faceCount (handleSelectAsset win asset stamp prev) \<le> 1"
  by (simp add: handleSelectAsset_def Let_def faceCount_append faceCount_single
      faceCount_filter_nonfaces newSticker_handleSelectAsset_def)

lemma cycleAnimalFace_faceCount:
  "cycleAnimalFace assets win newId prev = Inr store \<Longrightarrow> faceCount store = 1"
  by (auto simp add: cycleAnimalFace_def Let_def faceCount_append faceCount_single
      faceCount_filter_nonfaces split: option.splits dest: nextFaceAsset_is_face)

lemma cycleAnimalFace_p3a_faceCount:
  "cycleAnimalFace_p3a assets stamp prev = Inr store \<Longrightarrow> faceCount store = 1"
  by (auto simp add: cycleAnimalFace_p3a_def Let_def faceCount_append faceCount_single
      faceCount_filter_nonfaces split: option.splits)

lemma applyOp_faceCount:
  "applyOp assets win op prev = Inr store \<Longrightarrow> faceCount prev \<le> 1 \<Longrightarrow> faceCount store \<le> 1"
proof (cases op)
  case (AddSticker asset newId sx sy)
  then show "applyOp assets win op prev = Inr store \<Longrightarrow> faceCount prev \<le> 1 \<Longrightarrow> ?thesis"
    using handleAddSticker_faceCount by auto
next
  case (SelectAsset asset stamp)
  then show "applyOp assets win op prev = Inr store \<Longrightarrow> faceCount prev \<le> 1 \<Longrightarrow> ?thesis"
    using handleSelectAsset_faceCount by auto
next
  case (CycleFace newId)
  then show "applyOp assets win op prev = Inr store \<Longrightarrow> faceCount prev \<le> 1 \<Longrightarrow> ?thesis"
    using cycleAnimalFace_faceCount [of assets win newId prev store] by simp
next
  case (CycleFace_p3a stamp)
  then show "applyOp assets win op prev = Inr store \<Longrightarrow> faceCount prev \<le> 1 \<Longrightarrow> ?thesis"
    using cycleAnimalFace_p3a_faceCount [of assets stamp prev store] by simp
next
  case (DeleteSticker ident)
  then show "applyOp assets win op prev = Inr store \<Longrightarrow> faceCount prev \<le> 1 \<Longrightarrow> ?thesis"
    using faceCount_filter_le [of "\<lambda>s. s_id s \<noteq> ident" prev]
    by (auto simp add: handleDeleteSticker_def)
next
  case ClearAll
  then show "applyOp assets win op prev = Inr store \<Longrightarrow> faceCount prev \<le> 1 \<Longrightarrow> ?thesis"
    by (auto simp add: clearStickers_def faceCount_def)
qed

lemma runOps_faceCount:
  "runOps assets win ops start = Inr store \<Longrightarrow> faceCount start \<le> 1 \<Longrightarrow> faceCount store \<le> 1"
proof (induction ops arbitrary: start)
  case Nil
  then show ?case by simp
next
  case (Cons op ops)
  then show ?case
    by (auto split: sum.splits dest: applyOp_faceCount)
qed

text \<open>With a face asset in the catalogue no operation throws, so every run ends in a store.\<close>

lemma nextFaceAsset_defined:
  assumes "filter (\<lambda>a. a_category a = Faces) assets \<noteq> []"
  shows "\<exists>a. nextFaceAsset assets prev = Some a"
proof -
  let ?fa = "filter (\<lambda>a. a_category a = Faces) assets"
  have pos: "0 < int (length ?fa)" using assms by simp
  have "\<And>i::int. nat (i mod int (length ?fa)) < length ?fa"
    using pos by (simp add: nat_less_iff)
  then show ?thesis
    using pos by (auto simp add: nextFaceAsset_def Let_def elemAt_def split: option.splits)
qed

lemma runOps_total:
  assumes "filter (\<lambda>a. a_category a = Faces) assets \<noteq> []"
  shows "\<exists>store. runOps assets win ops start = Inr store"
proof (induction ops arbitrary: start)
  case Nil
  then show ?case by simp
next
  case (Cons op ops)
  have "\<exists>store'. applyOp assets win op start = Inr store'"
  proof (cases op)
    case (CycleFace newId)
    then show ?thesis
      using nextFaceAsset_defined [OF assms, of start]
      by (auto simp add: cycleAnimalFace_def Let_def)
  next
    case (CycleFace_p3a stamp)
    then show ?thesis
      using nextFaceAsset_defined [OF assms, of start]
      by (auto simp add: cycleAnimalFace_p3a_def Let_def)
  qed simp_all
  then show ?case using Cons.IH by auto
qed

text \<open>Example data for the closed instances below: two face assets and a hat.\<close>

definition exRabbit :: Asset where
  "exRabbit = \<lparr>a_id = ''f1_rabbit'', a_type = Svg, a_content = ''rabbit_face'', a_category = Faces,
     a_label = ''Rabbit'', a_anchorType = AFace, a_defaultScale = 3 / 2,
     a_defaultOffsetY = None, a_effectItems = Some [''carrot'', ''carrot'']\<rparr>"

definition exPanda :: Asset where
  "exPanda = \<lparr>a_id = ''f2_panda'', a_type = Svg, a_content = ''panda_face'', a_category = Faces,
     a_label = ''Panda'', a_anchorType = AFace, a_defaultScale = 3 / 2,
     a_defaultOffsetY = None, a_effectItems = Some [''bamboo'', ''tanabata'']\<rparr>"

definition exCap :: Asset where
  "exCap = \<lparr>a_id = ''h1'', a_type = Svg, a_content = ''cap_blue'', a_category = Hats,
     a_label = ''Cap'', a_anchorType = AHead, a_defaultScale = 3 / 2,
     a_defaultOffsetY = Some (- (6 / 10)), a_effectItems = None\<rparr>"

definition exWindow :: Window where
  "exWindow = \<lparr>innerWidth = 1280, innerHeight = 720\<rparr>"

text \<open>
  Claim C2. After any sequence of store operations (adding through \<open>handleAddSticker\<close> or
  \<open>handleSelectAsset\<close>, cycling the animal face in either version, deleting, clearing) that
  starts from the empty store, or from any store with at most one face sticker, the store
  holds at most one sticker of category faces; with a face asset in the catalogue every such
  sequence runs to its end. Adding a face sticker replaces the list, in one \<open>setStickers\<close>
  update, by the previous non-face stickers followed by the new sticker, which is then the
  only face.
\<close>

theorem at_most_one_face_sticker:
  "(runOps assets win ops [] = Inr store \<longrightarrow> faceCount store \<le> 1) \<and>
   (faceCount start \<le> 1 \<and> runOps assets win ops start = Inr store' \<longrightarrow> faceCount store' \<le> 1) \<and>
   (filter (\<lambda>a. a_category a = Faces) assets \<noteq> [] \<longrightarrow>
      (\<exists>final. runOps assets win ops start = Inr final)) \<and>
   (a_category asset = Faces \<longrightarrow>
      handleAddSticker win asset newId spawnX spawnY prev =
        filter (\<lambda>s. s_category s \<noteq> Faces) prev @
          [newItem_handleAddSticker win asset newId spawnX spawnY] \<and>
      filter isFace (handleAddSticker win asset newId spawnX spawnY prev) =
        [newItem_handleAddSticker win asset newId spawnX spawnY] \<and>
      filter isFace (handleSelectAsset win asset stamp prev) =
        [newSticker_handleSelectAsset win asset stamp])"
proof -
  have empty: "faceCount [] \<le> 1" by (simp add: faceCount_def)
  have nonfaces: "filter isFace (filter (\<lambda>s. s_category s \<noteq> Faces) prev) = []"
    by (induction prev) (simp_all add: isFace_def)
  have a: "runOps assets win ops [] = Inr store \<longrightarrow> faceCount store \<le> 1"
    using runOps_faceCount [of assets win ops "[]" store] empty by blast
  have b: "faceCount start \<le> 1 \<and> runOps assets win ops start = Inr store' \<longrightarrow> faceCount store' \<le> 1"
    using runOps_faceCount [of assets win ops start store'] by blast
  have c: "filter (\<lambda>a. a_category a = Faces) assets \<noteq> [] \<longrightarrow>
      (\<exists>final. runOps assets win ops start = Inr final)"
    using runOps_total [of assets win ops start] by blast
  have d: "a_category asset = Faces \<longrightarrow>
      handleAddSticker win asset newId spawnX spawnY prev =
        filter (\<lambda>s. s_category s \<noteq> Faces) prev @
          [newItem_handleAddSticker win asset newId spawnX spawnY] \<and>
      filter isFace (handleAddSticker win asset newId spawnX spawnY prev) =
        [newItem_handleAddSticker win asset newId spawnX spawnY] \<and>
      filter isFace (handleSelectAsset win asset stamp prev) =
        [newSticker_handleSelectAsset win asset stamp]"
    using nonfaces
    by (simp add: handleAddSticker_def handleSelectAsset_def Let_def isFace_def
        newItem_handleAddSticker_def newSticker_handleSelectAsset_def)
  from a b c d show ?thesis by blast
qed

theorem at_most_one_face_sticker_witness:
  "runOps [exRabbit, exPanda, exCap] exWindow
     [AddSticker exRabbit ''1a'' None None, AddSticker exCap ''2b'' (Some 100) (Some 50),
      CycleFace ''3auto'', SelectAsset exRabbit ''4'', CycleFace_p3a ''5'',
      DeleteSticker ''2b''] [] =
   Inr [\<lparr>s_id = ''face-5'', s_type = Svg, s_content = ''panda_face'', s_category = Faces,
         s_x = 0, s_y = 0, s_scale = 3 / 2, s_rotation = 0, s_opacity = None,
         s_anchorType = AFace, s_anchorOffset = \<lparr>v_x = 0, v_y = 0\<rparr>,
         s_baseScale = 3 / 2, s_baseRotation = 0, s_createdAt = None, s_lifespan = None\<rparr>] \<and>
   faceCount [\<lparr>s_id = ''face-5'', s_type = Svg, s_content = ''panda_face'', s_category = Faces,
         s_x = 0, s_y = 0, s_scale = 3 / 2, s_rotation = 0, s_opacity = None,
         s_anchorType = AFace, s_anchorOffset = \<lparr>v_x = 0, v_y = 0\<rparr>,
         s_baseScale = 3 / 2, s_baseRotation = 0, s_createdAt = None, s_lifespan = None\<rparr>] \<le> 1 \<and>
   filter isFace (handleAddSticker exWindow exPanda ''6'' None None
     [newItem_handleAddSticker exWindow exRabbit ''1a'' None None]) =
   [newItem_handleAddSticker exWindow exPanda ''6'' None None]"
proof -
  let ?face = "\<lparr>s_id = ''face-5'', s_type = Svg, s_content = ''panda_face'', s_category = Faces,
         s_x = 0, s_y = 0, s_scale = 3 / 2, s_rotation = 0, s_opacity = None,
         s_anchorType = AFace, s_anchorOffset = \<lparr>v_x = 0, v_y = 0\<rparr>,
         s_baseScale = 3 / 2, s_baseRotation = 0, s_createdAt = None, s_lifespan = None\<rparr>"
  let ?ops = "[AddSticker exRabbit ''1a'' None None, AddSticker exCap ''2b'' (Some 100) (Some 50),
      CycleFace ''3auto'', SelectAsset exRabbit ''4'', CycleFace_p3a ''5'',
      DeleteSticker ''2b'']"
  have run: "runOps [exRabbit, exPanda, exCap] exWindow ?ops [] = Inr [?face]"
    by (simp add: handleAddSticker_def handleSelectAsset_def cycleAnimalFace_def
        cycleAnimalFace_p3a_def handleDeleteSticker_def nextFaceAsset_def elemAt_def Let_def
        newItem_handleAddSticker_def newSticker_handleSelectAsset_def
        exRabbit_def exPanda_def exCap_def exWindow_def)
  have cat: "a_category exPanda = Faces" by (simp add: exPanda_def)
  note inst = at_most_one_face_sticker [of "[exRabbit, exPanda, exCap]" exWindow ?ops "[?face]"
      "[]" "[]" exPanda "''6''" None None
      "[newItem_handleAddSticker exWindow exRabbit ''1a'' None None]" "''7''"]
  from inst run have count: "faceCount [?face] \<le> 1" by blast
  from inst cat have repl: "filter isFace (handleAddSticker exWindow exPanda ''6'' None None
     [newItem_handleAddSticker exWindow exRabbit ''1a'' None None]) =
   [newItem_handleAddSticker exWindow exPanda ''6'' None None]" by blast
  from run count repl show ?thesis by blast
qed

section \<open>Lifecycle pass\<close>

text \<open>
  The pass at the head of the frame loop (part_004 lines 118 to 136, part_003 lines 295 to
  314 and 1001 to 1018), the same text in the three versions; the fade window is the
  constant \<open>EFFECT_FADE_DURATION\<close> of the version.
\<close>

definition EFFECT_LIFESPAN :: real where
  "EFFECT_LIFESPAN = 2000"


definition EFFECT_LIFESPAN_p3a :: real where
  "EFFECT_LIFESPAN_p3a = 3000"

definition EFFECT_FADE_DURATION_p3a :: real where
  "EFFECT_FADE_DURATION_p3a = 1000"

definition alive :: "real \<Rightarrow> StickerItem \<Rightarrow> bool" where
  "alive now s =
     (case (s_lifespan s, s_createdAt s) of
        (Some lifespan, Some createdAt) \<Rightarrow>
          (if lifespan = 0 \<or> createdAt = 0 then True else now - createdAt < lifespan)
      | _ \<Rightarrow> True)"

definition fadeSticker :: "real \<Rightarrow> real \<Rightarrow> StickerItem \<Rightarrow> StickerItem" where
  "fadeSticker fadeDuration now s =
     (case (s_lifespan s, s_createdAt s) of
        (Some lifespan, Some createdAt) \<Rightarrow>
          (if lifespan \<noteq> 0 \<and> createdAt \<noteq> 0 then
             (let age = now - createdAt; timeRemaining = lifespan - age
              in if timeRemaining < fadeDuration
                 then s\<lparr>s_opacity := Some (timeRemaining / fadeDuration)\<rparr>
                 else s)
           else s)
      | _ \<Rightarrow> s)"

definition lifecycleWith :: "real \<Rightarrow> real \<Rightarrow> StickerItem list \<Rightarrow> StickerItem list" where
  "lifecycleWith fadeDuration now prev = map (fadeSticker fadeDuration now) (filter (alive now) prev)"


definition lifecycle_p3a :: "real \<Rightarrow> StickerItem list \<Rightarrow> StickerItem list" where
  "lifecycle_p3a now prev = lifecycleWith EFFECT_FADE_DURATION_p3a now prev"


section \<open>Properties of the lifecycle pass\<close>




lemma lifecycleWith_fresh:
  assumes "s_lifespan s = Some L" and "s_createdAt s = Some c" and "L \<noteq> 0" and "c \<noteq> 0"
    and "now - c < L" and "fd \<le> L - (now - c)"
  shows "lifecycleWith fd now [s] = [s]"
  using assms by (simp add: lifecycleWith_def alive_def fadeSticker_def Let_def)

text \<open>
  The guard \<open>!s.lifespan || !s.createdAt\<close> reads a creation time or a lifespan of \<open>0\<close> as
  absent: such a sticker is kept at every time and never faded.
\<close>

lemma lifecycleWith_falsy_kept:
  "s_createdAt s = Some 0 \<or> s_lifespan s = Some 0 \<or> s_createdAt s = None \<or> s_lifespan s = None
   \<Longrightarrow> lifecycleWith fd now [s] = [s]"
  by (auto simp add: lifecycleWith_def alive_def fadeSticker_def split: option.splits)




section \<open>Interaction state and face anchoring\<close>

datatype Status = Idle | Hovering | Dragging | DroppingWait | Resizing

datatype TargetType = Sticker | ButtonAsset | ButtonCat

record InteractionState =
  i_status :: Status
  i_targetId :: "string option"
  i_targetType :: TargetType
  i_progress :: real

definition idleState :: InteractionState where
  "idleState = \<lparr>i_status = Idle, i_targetId = None, i_targetType = Sticker, i_progress = 0\<rparr>"

text \<open>
  The auto-positioning pass of part_004 (lines 401 to 428) and of the second component of
  part_003 (lines 1261 to 1288). \<open>anchorSticker\<close> is the function mapped over the store; it
  gives back the sample it wrote to \<open>lastFaceDataRef\<close>, if any, and the sticker. \<open>scaleX\<close> and
  \<open>scaleY\<close> are the width and height of the video rectangle, \<open>interactingId\<close> is
  \<open>interactingIdRef.current\<close> and \<open>status\<close> is \<open>currentState.status\<close>.
\<close>

definition anchorSticker ::
  "FaceLandmarkerResult \<Rightarrow> real \<Rightarrow> real \<Rightarrow> string option \<Rightarrow> Status \<Rightarrow> StickerItem \<Rightarrow>
   error + (AnchorData option \<times> StickerItem)" where
  "anchorSticker faceResult scaleX scaleY interactingId status sticker =
     (if interactingId = Some (s_id sticker) \<or> s_anchorType sticker = ANone \<or>
         status = Dragging \<or> truthyNum (s_lifespan sticker)
      then Inr (None, sticker)
      else
        (case getAnchorData faceResult (anchorTypeStr (s_anchorType sticker)) of
           Inl e \<Rightarrow> Inl e
         | Inr None \<Rightarrow> Inr (None, sticker)
         | Inr (Some anchorData) \<Rightarrow>
             (let screenX = (1 - ad_x anchorData) * scaleX;
                  screenY = ad_y anchorData * scaleY;
                  screenScale = ad_scale anchorData * scaleX
              in Inr (Some anchorData,
                      sticker\<lparr>s_x := screenX + v_x (s_anchorOffset sticker),
                              s_y := screenY + v_y (s_anchorOffset sticker),
                              s_scale := (screenScale / 100) * s_baseScale sticker,
                              s_rotation := s_baseRotation sticker - ad_rotation anchorData\<rparr>))))"

fun anchorAll ::
  "FaceLandmarkerResult \<Rightarrow> real \<Rightarrow> real \<Rightarrow> string option \<Rightarrow> Status \<Rightarrow> AnchorData option \<Rightarrow>
   StickerItem list \<Rightarrow> error + (AnchorData option \<times> StickerItem list)" where
  "anchorAll faceResult scaleX scaleY interactingId status lastFaceData [] = Inr (lastFaceData, [])"
| "anchorAll faceResult scaleX scaleY interactingId status lastFaceData (sticker # rest) =
     (case anchorSticker faceResult scaleX scaleY interactingId status sticker of
        Inl e \<Rightarrow> Inl e
      | Inr (written, sticker') \<Rightarrow>
          (case anchorAll faceResult scaleX scaleY interactingId status
                  (case written of None \<Rightarrow> lastFaceData | Some a \<Rightarrow> Some a) rest of
             Inl e \<Rightarrow> Inl e
           | Inr (lastFaceData', rest') \<Rightarrow> Inr (lastFaceData', sticker' # rest')))"

definition faceTracking ::
  "FaceLandmarkerResult option \<Rightarrow> real \<Rightarrow> real \<Rightarrow> string option \<Rightarrow> Status \<Rightarrow>
   AnchorData option \<Rightarrow> StickerItem list \<Rightarrow> error + (AnchorData option \<times> StickerItem list)" where
  "faceTracking faceResult scaleX scaleY interactingId status lastFaceData prevStickers =
     (case faceResult of
        None \<Rightarrow> Inr (lastFaceData, prevStickers)
      | Some fr \<Rightarrow>
          (if length (faceLandmarks fr) > 0
           then anchorAll fr scaleX scaleY interactingId status lastFaceData prevStickers
           else Inr (lastFaceData, prevStickers)))"

text \<open>
  The anchoring pass of the rewritten component (part_003 lines 543 to 582). The four
  samples are taken once per frame; the sample of the face anchor is the one cached in
  \<open>lastFaceDataRef\<close>. \<open>current\<close> is \<open>interactionStateRef.current\<close>.
\<close>

record AnchorDataMap =
  m_head :: "AnchorData option"
  m_eyes :: "AnchorData option"
  m_face :: "AnchorData option"
  m_body :: "AnchorData option"

fun lookupAnchor :: "AnchorDataMap \<Rightarrow> AnchorType \<Rightarrow> AnchorData option" where
  "lookupAnchor m AHead = m_head m"
| "lookupAnchor m AEyes = m_eyes m"
| "lookupAnchor m AFace = m_face m"
| "lookupAnchor m ABody = m_body m"
| "lookupAnchor m ANone = None"

definition anchorDataMap :: "FaceLandmarkerResult \<Rightarrow> error + AnchorDataMap" where
  "anchorDataMap faceResult =
     (case getAnchorData faceResult ''head'' of
        Inl e \<Rightarrow> Inl e
      | Inr h \<Rightarrow>
     (case getAnchorData faceResult ''eyes'' of
        Inl e \<Rightarrow> Inl e
      | Inr ey \<Rightarrow>
     (case getAnchorData faceResult ''face'' of
        Inl e \<Rightarrow> Inl e
      | Inr f \<Rightarrow>
     (case getAnchorData faceResult ''body'' of
        Inl e \<Rightarrow> Inl e
      | Inr b \<Rightarrow> Inr \<lparr>m_head = h, m_eyes = ey, m_face = f, m_body = b\<rparr>))))"

definition anchorSticker_p3a ::
  "AnchorDataMap \<Rightarrow> real \<Rightarrow> real \<Rightarrow> string option \<Rightarrow> InteractionState \<Rightarrow> StickerItem \<Rightarrow>
   StickerItem" where
  "anchorSticker_p3a m scaleX scaleY interactingId current s =
     (if Some (s_id s) = interactingId \<or>
         (i_status current = Dragging \<and> i_targetId current = Some (s_id s))
      then s
      else
        (case (if s_anchorType s \<noteq> ANone then lookupAnchor m (s_anchorType s) else None) of
           None \<Rightarrow> s
         | Some data \<Rightarrow>
             (let rawX = (1 - ad_x data) * scaleX;
                  rawY = ad_y data * scaleY;
                  faceWidthPx = ad_scale data * scaleX;
                  targetScale = (faceWidthPx / 128) * s_baseScale s
              in s\<lparr>s_x := rawX + (v_x (s_anchorOffset s) * scaleX * (1 / 10)),
                    s_y := rawY + (v_y (s_anchorOffset s) * scaleY * (1 / 10)),
                    s_scale := targetScale,
                    s_rotation := s_baseRotation s + ad_rotation data\<rparr>)))"

definition faceAnchoring_p3a ::
  "FaceLandmarkerResult option \<Rightarrow> real \<Rightarrow> real \<Rightarrow> string option \<Rightarrow> InteractionState \<Rightarrow>
   AnchorData option \<Rightarrow> StickerItem list \<Rightarrow> error + (AnchorData option \<times> StickerItem list)" where
  "faceAnchoring_p3a faceResult scaleX scaleY interactingId current lastFaceData prev =
     (case faceResult of
        None \<Rightarrow> Inr (lastFaceData, prev)
      | Some fr \<Rightarrow>
          (if length (faceLandmarks fr) > 0 then
             (case anchorDataMap fr of
                Inl e \<Rightarrow> Inl e
              | Inr m \<Rightarrow>
                  Inr (case m_face m of None \<Rightarrow> lastFaceData | Some a \<Rightarrow> Some a,
                       map (anchorSticker_p3a m scaleX scaleY interactingId current) prev))
           else Inr (lastFaceData, prev)))"

text \<open>
  Example data: a face whose 478 landmarks all lie at the centre of the frame, except the
  right cheek, one tenth of the frame width to the right; and a hat with a stored offset.
\<close>

definition exCentre :: NormalizedLandmark where
  "exCentre = \<lparr>lm_x = 1 / 2, lm_y = 1 / 2\<rparr>"

definition exFaceResult :: FaceLandmarkerResult where
  "exFaceResult = \<lparr>faceLandmarks = [(replicate 478 exCentre)[454 := \<lparr>lm_x = 6 / 10, lm_y = 1 / 2\<rparr>]]\<rparr>"

definition exAnchor :: AnchorData where
  "exAnchor = \<lparr>ad_x = 1 / 2, ad_y = 1 / 2, ad_scale = 1 / 10, ad_rotation = 0\<rparr>"

definition exHat :: StickerItem where
  "exHat = \<lparr>s_id = ''hat-1'', s_type = Emoji, s_content = ''crown'', s_category = Hats,
     s_x = 700, s_y = 300, s_scale = 2, s_rotation = 15, s_opacity = None,
     s_anchorType = AHead, s_anchorOffset = \<lparr>v_x = 10, v_y = 20\<rparr>,
     s_baseScale = 1, s_baseRotation = 0, s_createdAt = None, s_lifespan = None\<rparr>"

section \<open>Properties of face anchoring\<close>

lemma ex_elems:
  "elemAt ((replicate 478 exCentre)[454 := q]) 454 = Some q"
  "elemAt ((replicate 478 exCentre)[454 := q]) 234 = Some exCentre"
  "elemAt ((replicate 478 exCentre)[454 := q]) 263 = Some exCentre"
  "elemAt ((replicate 478 exCentre)[454 := q]) 33 = Some exCentre"
  "elemAt ((replicate 478 exCentre)[454 := q]) 10 = Some exCentre"
  "elemAt ((replicate 478 exCentre)[454 := q]) 1 = Some exCentre"
  "elemAt ((replicate 478 exCentre)[454 := q]) 152 = Some exCentre"
  by (simp_all add: elemAt_def)

lemma hypot_zero_right: "hypot a 0 = \<bar>a\<bar>"
  by (simp add: hypot_def)

lemma atan2_origin: "atan2 0 0 = 0"
  by (simp add: atan2_def)

lemma exFaceResult_anchor:
  "getAnchorData exFaceResult ''head'' = Inr (Some exAnchor)"
  "getAnchorData exFaceResult ''eyes'' = Inr (Some exAnchor)"
  "getAnchorData exFaceResult ''face'' = Inr (Some exAnchor)"
  "getAnchorData exFaceResult ''body'' = Inr (Some exAnchor)"
  unfolding getAnchorData_def exFaceResult_def
  by (simp_all only: FaceLandmarkerResult.simps list.case ex_elems prod.case option.case Let_def)
     (simp_all add: exCentre_def exAnchor_def hypot_zero_right atan2_origin)

text \<open>A sample for one selector shows that the landmark set is long enough for every selector.\<close>

lemma getAnchorData_some_long:
  assumes "getAnchorData fr t = Inr (Some a)"
  shows "\<exists>landmarks rest. faceLandmarks fr = landmarks # rest \<and> 454 < length landmarks"
proof (cases "faceLandmarks fr")
  case Nil
  then show ?thesis using assms by (simp add: getAnchorData_def)
next
  case (Cons landmarks rest)
  have "454 < length landmarks"
  proof (rule ccontr)
    assume "\<not> 454 < length landmarks"
    then have "getAnchorData fr t = Inl TypeError"
      using Cons getAnchorData_short_landmarks [of fr landmarks rest t] by simp
    then show False using assms by simp
  qed
  then show ?thesis using Cons by simp
qed

lemma getAnchorData_long_no_throw:
  assumes "faceLandmarks fr = landmarks # rest" and "454 < length landmarks"
  shows "\<exists>r. getAnchorData fr t = Inr r"
  using assms by (simp add: getAnchorData_def elemAt_in_range Let_def)

lemma getAnchorData_some_no_throw:
  "getAnchorData fr t = Inr (Some a) \<Longrightarrow> \<exists>r. getAnchorData fr t' = Inr r"
  using getAnchorData_some_long getAnchorData_long_no_throw by blast

lemma getAnchorData_some_nonempty:
  "getAnchorData fr t = Inr (Some a) \<Longrightarrow> length (faceLandmarks fr) > 0"
  using getAnchorData_some_long by fastforce

definition anchored :: "AnchorData \<Rightarrow> real \<Rightarrow> real \<Rightarrow> StickerItem \<Rightarrow> StickerItem" where
  "anchored a scaleX scaleY s =
     s\<lparr>s_x := (1 - ad_x a) * scaleX + v_x (s_anchorOffset s),
       s_y := ad_y a * scaleY + v_y (s_anchorOffset s),
       s_scale := (ad_scale a * scaleX / 100) * s_baseScale s,
       s_rotation := s_baseRotation s - ad_rotation a\<rparr>"

lemma anchorSticker_applied:
  assumes "interactingId \<noteq> Some (s_id s)" and "s_anchorType s \<noteq> ANone" and "status \<noteq> Dragging"
    and "\<not> truthyNum (s_lifespan s)"
    and "getAnchorData fr (anchorTypeStr (s_anchorType s)) = Inr (Some a)"
  shows "anchorSticker fr scaleX scaleY interactingId status s = Inr (Some a, anchored a scaleX scaleY s)"
  using assms by (simp add: anchorSticker_def anchored_def Let_def)

lemma anchorSticker_skipped:
  "interactingId = Some (s_id s) \<or> s_anchorType s = ANone \<or> status = Dragging \<or>
   truthyNum (s_lifespan s) \<Longrightarrow>
   anchorSticker fr scaleX scaleY interactingId status s = Inr (None, s)"
  by (simp add: anchorSticker_def)

lemma anchorSticker_no_throw:
  assumes "faceLandmarks fr = landmarks # rest" and "454 < length landmarks"
  shows "\<exists>r. anchorSticker fr scaleX scaleY interactingId status s = Inr r"
proof -
  obtain r where "getAnchorData fr (anchorTypeStr (s_anchorType s)) = Inr r"
    using getAnchorData_long_no_throw [OF assms] by blast
  then show ?thesis
    by (cases r) (simp_all add: anchorSticker_def Let_def)
qed

lemma anchorAll_no_throw:
  assumes "faceLandmarks fr = landmarks # rest" and "454 < length landmarks"
  shows "\<exists>r. anchorAll fr scaleX scaleY interactingId status lastFaceData prev = Inr r"
proof (induction prev arbitrary: lastFaceData)
  case Nil
  then show ?case by simp
next
  case (Cons s prev)
  obtain w s' where h: "anchorSticker fr scaleX scaleY interactingId status s = Inr (w, s')"
    using anchorSticker_no_throw [OF assms] by (metis surj_pair)
  obtain l out where
    "anchorAll fr scaleX scaleY interactingId status (case w of None \<Rightarrow> lastFaceData | Some a \<Rightarrow> Some a) prev
       = Inr (l, out)"
    using Cons.IH by (metis surj_pair)
  then show ?case using h by simp
qed

lemma anchorAll_nth:
  "anchorAll fr scaleX scaleY interactingId status lastFaceData prev = Inr (lastFaceData', out) \<Longrightarrow>
   length out = length prev \<and>
   (\<forall>i < length prev. \<exists>w. anchorSticker fr scaleX scaleY interactingId status (prev ! i) = Inr (w, out ! i))"
proof (induction prev arbitrary: lastFaceData out)
  case Nil
  then show ?case by simp
next
  case (Cons s prev)
  from Cons.prems obtain w s' rest' where
    h1: "anchorSticker fr scaleX scaleY interactingId status s = Inr (w, s')" and
    h2: "anchorAll fr scaleX scaleY interactingId status
           (case w of None \<Rightarrow> lastFaceData | Some a \<Rightarrow> Some a) prev = Inr (lastFaceData', rest')" and
    h3: "out = s' # rest'"
    by (auto split: sum.splits prod.splits)
  from Cons.IH [OF h2] have ih: "length rest' = length prev"
    "\<forall>i < length prev. \<exists>w. anchorSticker fr scaleX scaleY interactingId status (prev ! i) = Inr (w, rest' ! i)"
    by simp_all
  show ?case
  proof (intro conjI allI impI)
    show "length out = length (s # prev)" using ih(1) h3 by simp
  next
    fix i assume "i < length (s # prev)"
    then show "\<exists>w. anchorSticker fr scaleX scaleY interactingId status ((s # prev) ! i) = Inr (w, out ! i)"
      using h1 h3 ih(2) by (cases i) auto
  qed
qed

lemma anchorDataMap_lookup:
  assumes "anchorDataMap fr = Inr m" and "ty \<noteq> ANone"
  shows "getAnchorData fr (anchorTypeStr ty) = Inr (lookupAnchor m ty)"
  using assms by (cases ty) (auto simp add: anchorDataMap_def split: sum.splits)

lemma anchorDataMap_no_throw:
  assumes "faceLandmarks fr = landmarks # rest" and "454 < length landmarks"
  shows "\<exists>m. anchorDataMap fr = Inr m"
proof -
  obtain h where h: "getAnchorData fr ''head'' = Inr h" using getAnchorData_long_no_throw [OF assms] by blast
  obtain e where e: "getAnchorData fr ''eyes'' = Inr e" using getAnchorData_long_no_throw [OF assms] by blast
  obtain f where f: "getAnchorData fr ''face'' = Inr f" using getAnchorData_long_no_throw [OF assms] by blast
  obtain b where b: "getAnchorData fr ''body'' = Inr b" using getAnchorData_long_no_throw [OF assms] by blast
  show ?thesis by (simp add: anchorDataMap_def h e f b)
qed

definition anchored_p3a :: "AnchorData \<Rightarrow> real \<Rightarrow> real \<Rightarrow> StickerItem \<Rightarrow> StickerItem" where
  "anchored_p3a a scaleX scaleY s =
     s\<lparr>s_x := (1 - ad_x a) * scaleX + v_x (s_anchorOffset s) * scaleX * (1 / 10),
       s_y := ad_y a * scaleY + v_y (s_anchorOffset s) * scaleY * (1 / 10),
       s_scale := (ad_scale a * scaleX / 128) * s_baseScale s,
       s_rotation := s_baseRotation s + ad_rotation a\<rparr>"

lemma anchorSticker_p3a_applied:
  assumes "Some (s_id s) \<noteq> interactingId"
    and "\<not> (i_status current = Dragging \<and> i_targetId current = Some (s_id s))"
    and "s_anchorType s \<noteq> ANone" and "lookupAnchor m (s_anchorType s) = Some a"
  shows "anchorSticker_p3a m scaleX scaleY interactingId current s = anchored_p3a a scaleX scaleY s"
  using assms by (auto simp add: anchorSticker_p3a_def anchored_p3a_def Let_def)

text \<open>
  Claim C1, as the code has it. Let a sticker of the store have an anchor type other than
  none, let it not be the one held in \<open>interactingIdRef\<close>, and let the resolver give a
  sample for its anchor type. In part_004 and in the second component of part_003, when no
  drag is in progress and the sticker has no lifespan, the pass returns and puts the
  sticker at the mirrored anchor position \<open>((1 - x) * width, y * height)\<close> plus its stored
  offset. In the rewritten component of part_003, when the sticker is not the drag target,
  the pass returns and puts it at the mirrored anchor position plus its stored offset
  scaled by a tenth of the width and height. In both the new sticker is a function of the
  sample, the screen size and the sticker alone.
\<close>

theorem anchored_position:
  assumes "i < length prev"
    and "getAnchorData fr (anchorTypeStr (s_anchorType (prev ! i))) = Inr (Some a)"
    and "s_anchorType (prev ! i) \<noteq> ANone"
    and "interactingId \<noteq> Some (s_id (prev ! i))"
  shows
    "(status \<noteq> Dragging \<and> \<not> truthyNum (s_lifespan (prev ! i)) \<longrightarrow>
        (\<exists>lastFaceData' out.
           faceTracking (Some fr) scaleX scaleY interactingId status lastFaceData prev
             = Inr (lastFaceData', out) \<and>
           length out = length prev \<and>
           out ! i = anchored a scaleX scaleY (prev ! i) \<and>
           s_x (out ! i) = (1 - ad_x a) * scaleX + v_x (s_anchorOffset (prev ! i)) \<and>
           s_y (out ! i) = ad_y a * scaleY + v_y (s_anchorOffset (prev ! i)))) \<and>
     (\<not> (i_status current = Dragging \<and> i_targetId current = Some (s_id (prev ! i))) \<longrightarrow>
        (\<exists>lastFaceData' out.
           faceAnchoring_p3a (Some fr) scaleX scaleY interactingId current lastFaceData prev
             = Inr (lastFaceData', out) \<and>
           length out = length prev \<and>
           out ! i = anchored_p3a a scaleX scaleY (prev ! i) \<and>
           s_x (out ! i) =
             (1 - ad_x a) * scaleX + v_x (s_anchorOffset (prev ! i)) * scaleX * (1 / 10) \<and>
           s_y (out ! i) =
             ad_y a * scaleY + v_y (s_anchorOffset (prev ! i)) * scaleY * (1 / 10)))"
proof -
  obtain landmarks rest where long: "faceLandmarks fr = landmarks # rest" "454 < length landmarks"
    using getAnchorData_some_long [OF assms(2)] by blast
  have nonempty: "length (faceLandmarks fr) > 0" using long by simp
  have p4: "status \<noteq> Dragging \<and> \<not> truthyNum (s_lifespan (prev ! i)) \<longrightarrow>
        (\<exists>lastFaceData' out.
           faceTracking (Some fr) scaleX scaleY interactingId status lastFaceData prev
             = Inr (lastFaceData', out) \<and>
           length out = length prev \<and>
           out ! i = anchored a scaleX scaleY (prev ! i) \<and>
           s_x (out ! i) = (1 - ad_x a) * scaleX + v_x (s_anchorOffset (prev ! i)) \<and>
           s_y (out ! i) = ad_y a * scaleY + v_y (s_anchorOffset (prev ! i)))"
  proof
    assume c: "status \<noteq> Dragging \<and> \<not> truthyNum (s_lifespan (prev ! i))"
    obtain l out where run: "anchorAll fr scaleX scaleY interactingId status lastFaceData prev = Inr (l, out)"
      using anchorAll_no_throw [OF long] by (metis surj_pair)
    from anchorAll_nth [OF run] assms(1) obtain w where
      len: "length out = length prev" and
      el: "anchorSticker fr scaleX scaleY interactingId status (prev ! i) = Inr (w, out ! i)"
      by blast
    have "anchorSticker fr scaleX scaleY interactingId status (prev ! i)
            = Inr (Some a, anchored a scaleX scaleY (prev ! i))"
      using anchorSticker_applied [of interactingId "prev ! i" status fr a scaleX scaleY] assms c
      by blast
    with el have eq: "out ! i = anchored a scaleX scaleY (prev ! i)" by simp
    have "faceTracking (Some fr) scaleX scaleY interactingId status lastFaceData prev = Inr (l, out)"
      using run nonempty by (simp add: faceTracking_def)
    then show "\<exists>lastFaceData' out.
           faceTracking (Some fr) scaleX scaleY interactingId status lastFaceData prev
             = Inr (lastFaceData', out) \<and>
           length out = length prev \<and>
           out ! i = anchored a scaleX scaleY (prev ! i) \<and>
           s_x (out ! i) = (1 - ad_x a) * scaleX + v_x (s_anchorOffset (prev ! i)) \<and>
           s_y (out ! i) = ad_y a * scaleY + v_y (s_anchorOffset (prev ! i))"
      using len eq by (simp add: anchored_def)
  qed
  have p3a: "\<not> (i_status current = Dragging \<and> i_targetId current = Some (s_id (prev ! i))) \<longrightarrow>
        (\<exists>lastFaceData' out.
           faceAnchoring_p3a (Some fr) scaleX scaleY interactingId current lastFaceData prev
             = Inr (lastFaceData', out) \<and>
           length out = length prev \<and>
           out ! i = anchored_p3a a scaleX scaleY (prev ! i) \<and>
           s_x (out ! i) =
             (1 - ad_x a) * scaleX + v_x (s_anchorOffset (prev ! i)) * scaleX * (1 / 10) \<and>
           s_y (out ! i) =
             ad_y a * scaleY + v_y (s_anchorOffset (prev ! i)) * scaleY * (1 / 10))"
  proof
    assume c: "\<not> (i_status current = Dragging \<and> i_targetId current = Some (s_id (prev ! i)))"
    obtain m where m: "anchorDataMap fr = Inr m" using anchorDataMap_no_throw [OF long] by blast
    have look: "lookupAnchor m (s_anchorType (prev ! i)) = Some a"
      using anchorDataMap_lookup [OF m assms(3)] assms(2) by simp
    have el: "anchorSticker_p3a m scaleX scaleY interactingId current (prev ! i)
                = anchored_p3a a scaleX scaleY (prev ! i)"
      using anchorSticker_p3a_applied [of "prev ! i" interactingId current m a scaleX scaleY]
        assms(3,4) c look by auto
    let ?out = "map (anchorSticker_p3a m scaleX scaleY interactingId current) prev"
    have "faceAnchoring_p3a (Some fr) scaleX scaleY interactingId current lastFaceData prev
            = Inr (case m_face m of None \<Rightarrow> lastFaceData | Some a \<Rightarrow> Some a, ?out)"
      using m nonempty by (simp add: faceAnchoring_p3a_def)
    moreover have "?out ! i = anchored_p3a a scaleX scaleY (prev ! i)"
      using assms(1) el by simp
    ultimately show "\<exists>lastFaceData' out.
           faceAnchoring_p3a (Some fr) scaleX scaleY interactingId current lastFaceData prev
             = Inr (lastFaceData', out) \<and>
           length out = length prev \<and>
           out ! i = anchored_p3a a scaleX scaleY (prev ! i) \<and>
           s_x (out ! i) =
             (1 - ad_x a) * scaleX + v_x (s_anchorOffset (prev ! i)) * scaleX * (1 / 10) \<and>
           s_y (out ! i) =
             ad_y a * scaleY + v_y (s_anchorOffset (prev ! i)) * scaleY * (1 / 10)"
      by (simp add: anchored_p3a_def)
  qed
  from p4 p3a show ?thesis by blast
qed


lemma exFaceResult_map:
  "anchorDataMap exFaceResult =
     Inr \<lparr>m_head = Some exAnchor, m_eyes = Some exAnchor, m_face = Some exAnchor, m_body = Some exAnchor\<rparr>"
  by (simp add: anchorDataMap_def exFaceResult_anchor)

lemma exFaceResult_nonempty: "faceLandmarks exFaceResult \<noteq> []"
  by (simp add: exFaceResult_def)

theorem anchored_position_witness:
  "(\<exists>lastFaceData' out.
      faceTracking (Some exFaceResult) 1000 500 None Idle None [exHat] = Inr (lastFaceData', out) \<and>
      s_x (out ! 0) = 510 \<and> s_y (out ! 0) = 270) \<and>
   (\<exists>lastFaceData' out.
      faceAnchoring_p3a (Some exFaceResult) 1000 500 None idleState None [exHat]
        = Inr (lastFaceData', out) \<and>
      s_x (out ! 0) = 1500 \<and> s_y (out ! 0) = 1250)"
proof -
  have h: "0 < length [exHat]"
    "getAnchorData exFaceResult (anchorTypeStr (s_anchorType ([exHat] ! 0))) = Inr (Some exAnchor)"
    "s_anchorType ([exHat] ! 0) \<noteq> ANone"
    "None \<noteq> Some (s_id ([exHat] ! 0))"
    by (simp_all add: exHat_def exFaceResult_anchor)
  have c: "Idle \<noteq> Dragging \<and> \<not> truthyNum (s_lifespan ([exHat] ! 0))"
    "\<not> (i_status idleState = Dragging \<and> i_targetId idleState = Some (s_id ([exHat] ! 0)))"
    by (simp_all add: exHat_def idleState_def)
  note inst = anchored_position [OF h, of Idle 1000 500 None idleState]
  have vals: "(1 - ad_x exAnchor) * 1000 + v_x (s_anchorOffset ([exHat] ! 0)) = 510"
    "ad_y exAnchor * 500 + v_y (s_anchorOffset ([exHat] ! 0)) = 270"
    "(1 - ad_x exAnchor) * 1000 + v_x (s_anchorOffset ([exHat] ! 0)) * 1000 * (1 / 10) = 1500"
    "ad_y exAnchor * 500 + v_y (s_anchorOffset ([exHat] ! 0)) * 500 * (1 / 10) = 1250"
    by (simp_all add: exAnchor_def exHat_def)
  from inst c show ?thesis unfolding vals by blast
qed

text \<open>
  The claim as written fails on the rewritten component: there the stored offset is scaled
  by a tenth of the screen size, so the sticker lands at \<open>(1500, 1250)\<close> and not at the
  mirrored anchor position plus the offset, \<open>(510, 270)\<close>.
\<close>

theorem anchored_position_p3a_counterexample:
  "faceAnchoring_p3a (Some exFaceResult) 1000 500 None idleState None [exHat] =
     Inr (Some exAnchor,
          [exHat\<lparr>s_x := 1500, s_y := 1250, s_scale := 25 / 32, s_rotation := 0\<rparr>]) \<and>
   (1 - ad_x exAnchor) * 1000 + v_x (s_anchorOffset exHat) = 510 \<and>
   ad_y exAnchor * 500 + v_y (s_anchorOffset exHat) = 270"
  by (simp add: faceAnchoring_p3a_def exFaceResult_map exFaceResult_nonempty
      anchorSticker_p3a_def idleState_def Let_def exHat_def exAnchor_def)


section \<open>Component state and the drop conversion\<close>

text \<open>
  The state the frame loop and the handlers work on: the \<open>useState\<close> values and the
  \<open>useRef\<close> cells of the component, under their names in the source. A \<open>setState\<close> updater
  queued during a frame is applied to the value left by the updaters queued before it, so
  the sections of a frame are state transformers applied in the order of the source.
\<close>

record CoinItem =
  c_id :: string
  c_x :: real
  c_y :: real
  c_scale :: real
  c_value :: real
  c_collected :: bool

record World =
  stickers :: "StickerItem list"
  activeStickerId :: "string option"
  selectedCategory :: string
  interactionState :: InteractionState
  interactingIdRef :: "string option"
  lastFaceDataRef :: "AnchorData option"
  hoverStartTimeRef :: real
  dropStartTimeRef :: real
  lastEffectSpawnTimeRef :: real
  lastGestureTimeRef :: real
  lastHandPosRef :: "Vec2 option"
  isPlaying :: bool
  score :: real
  scoreRef :: real
  coins :: "CoinItem list"
  showWinModal :: bool

record Rect =
  r_width :: real
  r_height :: real

text \<open>
  \<open>handleHandDrop\<close> of part_004 (lines 478 to 501) and of the second component of part_003
  (lines 1360 to 1383). \<open>videoRect\<close> is the bounding rectangle of \<open>videoRef.current\<close>, \<open>None\<close>
  when that reference is null. The quotient \<open>sticker.scale / (faceWidthPx / 100)\<close> is not a
  finite number when the anchor has no width; what is proved about the conversion below
  assumes a width other than \<open>0\<close>.
\<close>

definition dropConversion ::
  "AnchorData option \<Rightarrow> Rect option \<Rightarrow> string \<Rightarrow> StickerItem list \<Rightarrow> StickerItem list" where
  "dropConversion faceData videoRect ident prev =
     (case (find (\<lambda>s. s_id s = ident) prev, faceData, videoRect) of
        (Some sticker, Some fd, Some rect) \<Rightarrow>
          (let faceX = (1 - ad_x fd) * r_width rect;
               faceY = ad_y fd * r_height rect;
               faceWidthPx = ad_scale fd * r_width rect;
               newOffsetX = s_x sticker - faceX;
               newOffsetY = s_y sticker - faceY;
               newBaseScale = s_scale sticker / (faceWidthPx / 100)
           in map (\<lambda>s. if s_id s = ident
                         then s\<lparr>s_anchorOffset := \<lparr>v_x = newOffsetX, v_y = newOffsetY\<rparr>,
                                s_baseScale := newBaseScale,
                                s_baseRotation := s_rotation sticker + ad_rotation fd\<rparr>
                         else s) prev)
      | _ \<Rightarrow> prev)"

definition handleHandDrop :: "Rect option \<Rightarrow> string \<Rightarrow> World \<Rightarrow> World" where
  "handleHandDrop videoRect ident w =
     w\<lparr>interactingIdRef := None,
       stickers := dropConversion (lastFaceDataRef w) videoRect ident (stickers w)\<rparr>"

text \<open>\<open>handleHandDrop\<close> of the rewritten component (part_003 lines 161 to 164).\<close>

definition handleHandDrop_p3a :: "string \<Rightarrow> World \<Rightarrow> World" where
  "handleHandDrop_p3a ident w = w\<lparr>interactingIdRef := None, activeStickerId := None\<rparr>"

text \<open>The face-anchoring section of a frame, on the component state.\<close>

definition faceTrackingSection ::
  "FaceLandmarkerResult option \<Rightarrow> real \<Rightarrow> real \<Rightarrow> InteractionState \<Rightarrow> World \<Rightarrow> error + World" where
  "faceTrackingSection faceResult scaleX scaleY currentState w =
     (case faceTracking faceResult scaleX scaleY (interactingIdRef w) (i_status currentState)
             (lastFaceDataRef w) (stickers w) of
        Inl e \<Rightarrow> Inl e
      | Inr (lastFaceData', stickers') \<Rightarrow>
          Inr (w\<lparr>lastFaceDataRef := lastFaceData', stickers := stickers'\<rparr>))"

definition faceAnchoringSection_p3a ::
  "FaceLandmarkerResult option \<Rightarrow> real \<Rightarrow> real \<Rightarrow> World \<Rightarrow> error + World" where
  "faceAnchoringSection_p3a faceResult scaleX scaleY w =
     (case faceAnchoring_p3a faceResult scaleX scaleY (interactingIdRef w) (interactionState w)
             (lastFaceDataRef w) (stickers w) of
        Inl e \<Rightarrow> Inl e
      | Inr (lastFaceData', stickers') \<Rightarrow>
          Inr (w\<lparr>lastFaceDataRef := lastFaceData', stickers := stickers'\<rparr>))"

section \<open>Properties of the drop conversion\<close>

lemma find_map_same_key:
  assumes "\<And>x. P (f x) = P x"
  shows "find P (map f xs) = map_option f (find P xs)"
  using assms by (induction xs) simp_all

lemma dropConversion_nth:
  assumes "find (\<lambda>t. s_id t = ident) prev = Some s" and "i < length prev"
    and "s_id (prev ! i) = ident"
  shows "dropConversion (Some a) (Some rect) ident prev ! i =
           (prev ! i)\<lparr>s_anchorOffset := \<lparr>v_x = s_x s - (1 - ad_x a) * r_width rect,
                                         v_y = s_y s - ad_y a * r_height rect\<rparr>,
                      s_baseScale := s_scale s / (ad_scale a * r_width rect / 100),
                      s_baseRotation := s_rotation s + ad_rotation a\<rparr>"
  using assms by (simp add: dropConversion_def Let_def)

lemma dropConversion_length: "length (dropConversion fd rect ident prev) = length prev"
  by (simp add: dropConversion_def Let_def split: option.splits)

text \<open>
  Part_004 and the second component of part_003: drop, then one anchoring pass. Whether
  the pass skips the dropped sticker or applies the sample that was cached at the drop,
  the sticker keeps its position, scale and rotation.
\<close>

lemma drop_then_anchor_keeps_transform:
  assumes "i < length prev" and "s_id (prev ! i) = ident"
    and "find (\<lambda>t. s_id t = ident) prev = Some (prev ! i)"
    and "ad_scale a * r_width rect \<noteq> 0"
    and "getAnchorData fr (anchorTypeStr (s_anchorType (prev ! i))) = Inr (Some a)"
  shows "\<exists>lastFaceData' out.
           faceTracking (Some fr) (r_width rect) (r_height rect) interactingId status (Some a)
             (dropConversion (Some a) (Some rect) ident prev) = Inr (lastFaceData', out) \<and>
           length out = length prev \<and>
           s_x (out ! i) = s_x (prev ! i) \<and> s_y (out ! i) = s_y (prev ! i) \<and>
           s_scale (out ! i) = s_scale (prev ! i) \<and> s_rotation (out ! i) = s_rotation (prev ! i)"
proof -
  let ?d = "dropConversion (Some a) (Some rect) ident prev"
  let ?s = "prev ! i"
  have di: "?d ! i = ?s\<lparr>s_anchorOffset := \<lparr>v_x = s_x ?s - (1 - ad_x a) * r_width rect,
                                         v_y = s_y ?s - ad_y a * r_height rect\<rparr>,
                      s_baseScale := s_scale ?s / (ad_scale a * r_width rect / 100),
                      s_baseRotation := s_rotation ?s + ad_rotation a\<rparr>"
    using dropConversion_nth [OF assms(3) assms(1) assms(2)] .
  obtain landmarks rest where long: "faceLandmarks fr = landmarks # rest" "454 < length landmarks"
    using getAnchorData_some_long [OF assms(5)] by blast
  obtain l out where run:
    "anchorAll fr (r_width rect) (r_height rect) interactingId status (Some a) ?d = Inr (l, out)"
    using anchorAll_no_throw [OF long] by (metis surj_pair)
  have len_d: "length ?d = length prev" by (rule dropConversion_length)
  from anchorAll_nth [OF run] assms(1) len_d obtain w where
    len: "length out = length ?d" and
    el: "anchorSticker fr (r_width rect) (r_height rect) interactingId status (?d ! i) = Inr (w, out ! i)"
    by auto
  have ty: "s_anchorType (?d ! i) = s_anchorType ?s" "s_id (?d ! i) = s_id ?s"
    "s_lifespan (?d ! i) = s_lifespan ?s"
    using di by simp_all
  have keep: "s_x (out ! i) = s_x ?s \<and> s_y (out ! i) = s_y ?s \<and>
      s_scale (out ! i) = s_scale ?s \<and> s_rotation (out ! i) = s_rotation ?s"
  proof (cases "interactingId = Some (s_id ?s) \<or> s_anchorType ?s = ANone \<or> status = Dragging \<or>
      truthyNum (s_lifespan ?s)")
    case True
    then have "anchorSticker fr (r_width rect) (r_height rect) interactingId status (?d ! i)
        = Inr (None, ?d ! i)"
      using anchorSticker_skipped [of interactingId "?d ! i" status fr] ty by simp
    with el have "out ! i = ?d ! i" by (metis Pair_inject sum.inject(2))
    then show ?thesis using di by simp
  next
    case False
    then have "anchorSticker fr (r_width rect) (r_height rect) interactingId status (?d ! i)
        = Inr (Some a, anchored a (r_width rect) (r_height rect) (?d ! i))"
      using anchorSticker_applied [of interactingId "?d ! i" status fr a] ty assms(5) by simp
    with el have "out ! i = anchored a (r_width rect) (r_height rect) (?d ! i)"
      by (metis Pair_inject sum.inject(2))
    then show ?thesis using di assms(4) by (simp add: anchored_def)
  qed
  have "faceTracking (Some fr) (r_width rect) (r_height rect) interactingId status (Some a) ?d
      = Inr (l, out)"
    using run long by (simp add: faceTracking_def)
  then show ?thesis using keep len len_d by auto
qed


section \<open>Gesture interaction\<close>

definition HOVER_THRESHOLD_MS :: real where
  "HOVER_THRESHOLD_MS = 2500"

definition BUTTON_HOVER_THRESHOLD_MS :: real where
  "BUTTON_HOVER_THRESHOLD_MS = 1500"

definition DROP_THRESHOLD_MS :: real where
  "DROP_THRESHOLD_MS = 1500"

definition INTERACTION_RADIUS :: real where
  "INTERACTION_RADIUS = 60"

definition RESIZE_FACTOR :: real where
  "RESIZE_FACTOR = 15"

definition EFFECT_COOLDOWN_MS :: real where
  "EFFECT_COOLDOWN_MS = 200"

text \<open>
  The values the hand-processing section leaves in its local variables; with no hand they
  keep their initial values \<open>0\<close> and \<open>false\<close>.
\<close>

record Gesture =
  cursorX :: real
  cursorY :: real
  handDetected :: bool
  isResizingGesture :: bool
  isOpenPalm :: bool
  pinchDistance :: real
  fingerCount :: nat

text \<open>The results of the \<open>Math.random()\<close> and \<open>Date.now()\<close> calls of the effect spawner.\<close>

record Rand =
  rnd_item :: real
  rnd_offsetX :: real
  rnd_offsetY :: real
  rnd_rotation :: real
  rnd_effectId :: string

text \<open>
  \<open>s.startsWith(p)\<close> and \<open>s.replace(p, '')\<close> for a string pattern: the first occurrence of
  \<open>p\<close> is removed.
\<close>

definition startsWith :: "string \<Rightarrow> string \<Rightarrow> bool" where
  "startsWith s p = (take (length p) s = p)"

fun removeFirst :: "string \<Rightarrow> string \<Rightarrow> string" where
  "removeFirst p [] = []"
| "removeFirst p (c # cs) =
     (if take (length p) (c # cs) = p then drop (length p) (c # cs) else c # removeFirst p cs)"

text \<open>
  The button under the cursor, part_004 lines 312 to 327 (part_003 lines 1171 to 1186).
  \<open>btn\<close> is the \<open>id\<close> of \<open>element.closest('button')\<close>, \<open>None\<close> when there is no element at the
  cursor or no such button. The result is the pair \<open>(hoveredButtonId, hoveredType)\<close>.
\<close>

definition hoveredButton :: "string option \<Rightarrow> string option \<times> TargetType option" where
  "hoveredButton btn =
     (case btn of
        None \<Rightarrow> (None, None)
      | Some bid \<Rightarrow>
          (if bid \<noteq> [] then
             (if startsWith bid ''asset-btn-'' then (Some (removeFirst ''asset-btn-'' bid), Some ButtonAsset)
              else if startsWith bid ''cat-btn-'' then (Some (removeFirst ''cat-btn-'' bid), Some ButtonCat)
              else (None, None))
           else (None, None)))"

text \<open>
  The scan for the closest sticker, part_004 lines 355 to 369 (part_003 lines 1214 to
  1228). The accumulators are \<open>closestId\<close> and \<open>minDst\<close>; \<open>None\<close> for \<open>minDst\<close> is \<open>Infinity\<close>.
\<close>

fun scanClosest ::
  "real \<Rightarrow> real \<Rightarrow> StickerItem list \<Rightarrow> string option \<Rightarrow> real option \<Rightarrow> string option" where
  "scanClosest cx cy [] closestId minDst = closestId"
| "scanClosest cx cy (s # rest) closestId minDst =
     (let dx = s_x s - cx;
          dy = s_y s - cy;
          dist = sqrt (dx * dx + dy * dy)
      in if dist < INTERACTION_RADIUS \<and> (case minDst of None \<Rightarrow> True | Some m \<Rightarrow> dist < m)
         then scanClosest cx cy rest (Some (s_id s)) (Some dist)
         else scanClosest cx cy rest closestId minDst)"

definition closestSticker :: "real \<Rightarrow> real \<Rightarrow> StickerItem list \<Rightarrow> string option" where
  "closestSticker cx cy currentStickers =
     (let interactableStickers = filter (\<lambda>s. \<not> truthyNum (s_lifespan s)) currentStickers
      in scanClosest cx cy interactableStickers None None)"

text \<open>
  The open-palm effect spawner, part_004 lines 229 to 274 (part_003 lines 1097 to 1134).
  An index outside \<open>items\<close> reads \<open>undefined\<close>; the catalogue's lists are not empty and
  \<open>Math.random()\<close> is below \<open>1\<close>, so the text used for that case is never shown.
\<close>

definition effectSpawn :: "Asset list \<Rightarrow> real \<Rightarrow> Gesture \<Rightarrow> Rand \<Rightarrow> World \<Rightarrow> World" where
  "effectSpawn assets now g rnd w =
     (if isOpenPalm g \<and> now - lastEffectSpawnTimeRef w > EFFECT_COOLDOWN_MS then
        (case find (\<lambda>s. s_category s = Faces) (stickers w) of
           None \<Rightarrow> w
         | Some activeFace \<Rightarrow>
             (if now - lastEffectSpawnTimeRef w > EFFECT_COOLDOWN_MS then
                (case find (\<lambda>a. s_content activeFace = a_content a) assets of
                   None \<Rightarrow> w
                 | Some matchingAsset \<Rightarrow>
                     (case a_effectItems matchingAsset of
                        None \<Rightarrow> w
                      | Some items \<Rightarrow>
                          (let randomItem =
                                 (case elemAt items (nat \<lfloor>rnd_item rnd * real (length items)\<rfloor>) of
                                    None \<Rightarrow> ''undefined''
                                  | Some item \<Rightarrow> item);
                               offsetX = (rnd_offsetX rnd - 1 / 2) * 150;
                               offsetY = (rnd_offsetY rnd - 1 / 2) * 150;
                               newEffect =
                                 \<lparr>s_id = rnd_effectId rnd, s_type = Emoji, s_content = randomItem,
                                  s_category = Accessories,
                                  s_x = cursorX g + offsetX, s_y = cursorY g + offsetY,
                                  s_scale = 2, s_rotation = (rnd_rotation rnd - 1 / 2) * 40,
                                  s_opacity = Some 1, s_anchorType = ANone,
                                  s_anchorOffset = \<lparr>v_x = 0, v_y = 0\<rparr>,
                                  s_baseScale = 2, s_baseRotation = 0,
                                  s_createdAt = Some now, s_lifespan = Some EFFECT_LIFESPAN\<rparr>
                           in w\<lparr>lastEffectSpawnTimeRef := now,
                                 stickers := stickers w @ [newEffect]\<rparr>)))
              else w))
      else w)"

text \<open>Resizing mode, part_004 lines 277 to 289; the same text in the three versions.\<close>

definition resizingMode :: "Gesture \<Rightarrow> InteractionState \<Rightarrow> World \<Rightarrow> World" where
  "resizingMode g currentState w =
     (let targetId = (if truthyStr (i_targetId currentState) then i_targetId currentState
                      else interactingIdRef w)
      in if truthyStr targetId \<and> i_targetType currentState = Sticker then
           (let newScaleMultiplier = max (2 / 10) (pinchDistance g * RESIZE_FACTOR)
            in w\<lparr>stickers :=
                   map (\<lambda>s. if Some (s_id s) = targetId
                             then s\<lparr>s_baseScale := newScaleMultiplier\<rparr> else s) (stickers w)\<rparr>)
         else w)"

text \<open>
  Dragging mode, part_004 lines 291 to 309; \<open>target\<close> is \<open>currentState.targetId\<close>, and \<open>dropFn\<close>
  is the version's \<open>handleHandDrop\<close>.
\<close>

definition draggingMode ::
  "(string \<Rightarrow> World \<Rightarrow> World) \<Rightarrow> real \<Rightarrow> Gesture \<Rightarrow> string \<Rightarrow> World \<Rightarrow> World" where
  "draggingMode dropFn now g target w =
     (let w1 = w\<lparr>stickers :=
                   map (\<lambda>s. if s_id s = target then s\<lparr>s_x := cursorX g, s_y := cursorY g\<rparr> else s)
                     (stickers w)\<rparr>;
          w2 = (if dropStartTimeRef w1 = 0 then w1\<lparr>dropStartTimeRef := now\<rparr> else w1);
          dropProgress = min ((now - dropStartTimeRef w2) / DROP_THRESHOLD_MS) 1;
          w3 = w2\<lparr>interactionState :=
                    (interactionState w2)\<lparr>i_progress := dropProgress, i_status := Dragging\<rparr>\<rparr>
      in if dropProgress \<ge> 1
         then (dropFn target w3)\<lparr>interactionState := idleState, dropStartTimeRef := 0\<rparr>
         else w3)"

text \<open>Hovering a button, part_004 lines 329 to 353.\<close>

definition hoverButton ::
  "Asset list \<Rightarrow> Window \<Rightarrow> real \<Rightarrow> Gesture \<Rightarrow> string \<Rightarrow> InteractionState \<Rightarrow> string \<Rightarrow>
   TargetType \<Rightarrow> World \<Rightarrow> World" where
  "hoverButton assets win now g newId currentState hoveredButtonId hoveredType w =
     (if i_targetId currentState \<noteq> Some hoveredButtonId then
        w\<lparr>hoverStartTimeRef := now,
          interactionState := \<lparr>i_status = Hovering, i_targetId = Some hoveredButtonId,
                               i_targetType = hoveredType, i_progress = 0\<rparr>\<rparr>
      else
        (let elapsed = now - hoverStartTimeRef w;
             progress = min (elapsed / BUTTON_HOVER_THRESHOLD_MS) 1;
             w1 = w\<lparr>interactionState := (interactionState w)\<lparr>i_progress := progress\<rparr>\<rparr>
         in if progress \<ge> 1 then
              (let w2 =
                     (if hoveredType = ButtonCat then
                        w1\<lparr>selectedCategory := hoveredButtonId, interactionState := idleState\<rparr>
                      else if hoveredType = ButtonAsset then
                        (case find (\<lambda>a. a_id a = hoveredButtonId) assets of
                           None \<Rightarrow> w1
                         | Some asset \<Rightarrow>
                             w1\<lparr>stickers := handleAddSticker win asset newId (Some (cursorX g))
                                               (Some (cursorY g)) (stickers w1),
                                activeStickerId := Some newId,
                                interactingIdRef := Some newId,
                                interactionState := \<lparr>i_status = Dragging, i_targetId = Some newId,
                                                     i_targetType = Sticker, i_progress = 0\<rparr>,
                                dropStartTimeRef := now\<rparr>)
                      else w1)
               in w2\<lparr>hoverStartTimeRef := 0\<rparr>)
            else w1))"

text \<open>Hovering a sticker, part_004 lines 371 to 390.\<close>

definition hoverSticker :: "real \<Rightarrow> InteractionState \<Rightarrow> string option \<Rightarrow> World \<Rightarrow> World" where
  "hoverSticker now currentState closestId w =
     (case (if truthyStr closestId then closestId else None) of
        Some cid \<Rightarrow>
          (if i_targetId currentState \<noteq> Some cid then
             w\<lparr>hoverStartTimeRef := now,
               interactionState := \<lparr>i_status = Hovering, i_targetId = Some cid,
                                    i_targetType = Sticker, i_progress = 0\<rparr>\<rparr>
           else
             (let elapsed = now - hoverStartTimeRef w;
                  progress = min (elapsed / HOVER_THRESHOLD_MS) 1;
                  w1 = w\<lparr>interactionState := (interactionState w)\<lparr>i_progress := progress\<rparr>\<rparr>
              in if progress \<ge> 1 then
                   w1\<lparr>interactionState := \<lparr>i_status = Dragging, i_targetId = Some cid,
                                           i_targetType = Sticker, i_progress = 0\<rparr>,
                      dropStartTimeRef := now,
                      interactingIdRef := Some cid,
                      activeStickerId := Some cid\<rparr>
                 else w1))
      | None \<Rightarrow> w\<lparr>interactionState := idleState, hoverStartTimeRef := 0\<rparr>)"

text \<open>
  Selection mode, part_004 lines 310 to 392: a button under the cursor is looked for
  first, the stickers are scanned only when there is none. \<open>currentStickers\<close> is the list
  the loop's closure holds.
\<close>

definition selectionMode ::
  "Asset list \<Rightarrow> Window \<Rightarrow> real \<Rightarrow> Gesture \<Rightarrow> string option \<Rightarrow> StickerItem list \<Rightarrow> string \<Rightarrow>
   InteractionState \<Rightarrow> World \<Rightarrow> World" where
  "selectionMode assets win now g btn currentStickers newId currentState w =
     (case hoveredButton btn of
        (Some hoveredButtonId, Some hoveredType) \<Rightarrow>
          (if hoveredButtonId \<noteq> [] then
             hoverButton assets win now g newId currentState hoveredButtonId hoveredType w
           else hoverSticker now currentState (closestSticker (cursorX g) (cursorY g) currentStickers) w)
      | _ \<Rightarrow> hoverSticker now currentState (closestSticker (cursorX g) (cursorY g) currentStickers) w)"

definition isDraggingSticker :: "InteractionState \<Rightarrow> bool" where
  "isDraggingSticker currentState =
     (i_status currentState = Dragging \<and> truthyStr (i_targetId currentState) \<and>
      i_targetType currentState = Sticker)"

text \<open>The branch for a detected hand, part_004 lines 228 to 392.\<close>

definition handBranch ::
  "Asset list \<Rightarrow> Window \<Rightarrow> Rect option \<Rightarrow> real \<Rightarrow> Gesture \<Rightarrow> string option \<Rightarrow> StickerItem list \<Rightarrow>
   string \<Rightarrow> Rand \<Rightarrow> InteractionState \<Rightarrow> World \<Rightarrow> World" where
  "handBranch assets win videoRect now g btn currentStickers newId rnd currentState w =
     (let w1 = effectSpawn assets now g rnd w
      in if isResizingGesture g \<and>
            (truthyStr (i_targetId currentState) \<or> i_status currentState = Hovering)
         then resizingMode g currentState w1
         else if isDraggingSticker currentState then
           (case i_targetId currentState of
              None \<Rightarrow> w1
            | Some target \<Rightarrow> draggingMode (handleHandDrop videoRect) now g target w1)
         else selectionMode assets win now g btn currentStickers newId currentState w1)"

text \<open>The branch for a lost hand, part_004 lines 393 to 398 (part_003 lines 1253 to 1258).\<close>

definition noHandBranch :: "Rect option \<Rightarrow> InteractionState \<Rightarrow> World \<Rightarrow> World" where
  "noHandBranch videoRect currentState w =
     (let w1 = (if isDraggingSticker currentState then
                  (case i_targetId currentState of
                     None \<Rightarrow> w
                   | Some target \<Rightarrow> handleHandDrop videoRect target w)
                else w)
      in w1\<lparr>interactionState := idleState\<rparr>)"

text \<open>
  The interaction section of a frame: part_004 lines 223 to 398, and part_003 lines 1093
  to 1258 with the test of the game mode. \<open>currentState\<close> is \<open>interactionStateRef.current\<close>,
  read once at the head of the section.
\<close>

definition interactionLogic ::
  "Asset list \<Rightarrow> Window \<Rightarrow> Rect option \<Rightarrow> real \<Rightarrow> Gesture \<Rightarrow> string option \<Rightarrow> StickerItem list \<Rightarrow>
   string \<Rightarrow> Rand \<Rightarrow> InteractionState \<Rightarrow> World \<Rightarrow> World" where
  "interactionLogic assets win videoRect now g btn currentStickers newId rnd currentState w =
     (if handDetected g
      then handBranch assets win videoRect now g btn currentStickers newId rnd currentState w
      else noHandBranch videoRect currentState w)"

definition interactionLogic_p3b ::
  "Asset list \<Rightarrow> Window \<Rightarrow> Rect option \<Rightarrow> real \<Rightarrow> Gesture \<Rightarrow> string option \<Rightarrow> StickerItem list \<Rightarrow>
   string \<Rightarrow> Rand \<Rightarrow> InteractionState \<Rightarrow> World \<Rightarrow> World" where
  "interactionLogic_p3b assets win videoRect now g btn currentStickers newId rnd currentState w =
     (if handDetected g \<and> \<not> isPlaying w
      then handBranch assets win videoRect now g btn currentStickers newId rnd currentState w
      else if \<not> handDetected g then noHandBranch videoRect currentState w
      else w)"

text \<open>
  The rewritten component (part_003 lines 445 to 541). The target under the cursor, lines
  481 to 507: \<open>btnAsset\<close> and \<open>btnCat\<close> are the \<open>id\<close>s of the closest elements whose \<open>id\<close>
  starts with \<open>asset-btn-\<close> and \<open>cat-btn-\<close>; the stickers of \<open>stickersRef.current\<close> are
  scanned from the last to the first and the scan stops at the first one within the
  radius.
\<close>

definition targetUnderCursor_p3a ::
  "string option \<Rightarrow> string option \<Rightarrow> real \<Rightarrow> real \<Rightarrow> StickerItem list \<Rightarrow>
   string option \<times> TargetType" where
  "targetUnderCursor_p3a btnAsset btnCat cx cy stickersRef =
     (let (targetId, targetType) =
            (case btnAsset of
               Some aid \<Rightarrow> (Some (removeFirst ''asset-btn-'' aid), ButtonAsset)
             | None \<Rightarrow>
                 (case btnCat of
                    Some cid \<Rightarrow> (Some (removeFirst ''cat-btn-'' cid), ButtonCat)
                  | None \<Rightarrow> (None, Sticker)))
      in if \<not> truthyStr targetId then
           (case find (\<lambda>s. hypot (s_x s - cx) (s_y s - cy) < INTERACTION_RADIUS) (rev stickersRef) of
              Some s \<Rightarrow> (Some (s_id s), Sticker)
            | None \<Rightarrow> (targetId, targetType))
         else (targetId, targetType))"

definition selectionMode_p3a ::
  "Asset list \<Rightarrow> Window \<Rightarrow> real \<Rightarrow> string \<Rightarrow> Gesture \<Rightarrow> string option \<Rightarrow> string option \<Rightarrow>
   StickerItem list \<Rightarrow> InteractionState \<Rightarrow> World \<Rightarrow> World" where
  "selectionMode_p3a assets win now stamp g btnAsset btnCat stickersRef currentState w =
     (case targetUnderCursor_p3a btnAsset btnCat (cursorX g) (cursorY g) stickersRef of
        (targetId, targetType) \<Rightarrow>
          (case (if truthyStr targetId then targetId else None) of
             Some tid \<Rightarrow>
               (if i_targetId currentState = Some tid \<and> i_status currentState = Hovering then
                  (let elapsed = now - hoverStartTimeRef w;
                       threshold = (if targetType = Sticker then HOVER_THRESHOLD_MS
                                    else BUTTON_HOVER_THRESHOLD_MS);
                       progress = min (elapsed / threshold) 1;
                       w1 = w\<lparr>interactionState :=
                                 \<lparr>i_status = Hovering, i_targetId = Some tid,
                                  i_targetType = targetType, i_progress = progress\<rparr>\<rparr>
                   in if progress \<ge> 1 then
                        (let w2 =
                               (case targetType of
                                  Sticker \<Rightarrow>
                                    w1\<lparr>interactingIdRef := Some tid,
                                       interactionState :=
                                         \<lparr>i_status = Dragging, i_targetId = Some tid,
                                          i_targetType = targetType, i_progress = 0\<rparr>,
                                       activeStickerId := Some tid\<rparr>
                                | ButtonAsset \<Rightarrow>
                                    (case find (\<lambda>a. a_id a = tid) assets of
                                       None \<Rightarrow> w1
                                     | Some asset \<Rightarrow>
                                         w1\<lparr>stickers := handleSelectAsset win asset stamp (stickers w1)\<rparr>)
                                    \<lparr>interactionState := idleState\<rparr>
                                | ButtonCat \<Rightarrow>
                                    w1\<lparr>selectedCategory := tid, interactionState := idleState\<rparr>)
                         in w2\<lparr>hoverStartTimeRef := 0\<rparr>)
                      else w1)
                else if i_targetId currentState \<noteq> Some tid then
                  w\<lparr>hoverStartTimeRef := now,
                    interactionState := \<lparr>i_status = Hovering, i_targetId = Some tid,
                                         i_targetType = targetType, i_progress = 0\<rparr>\<rparr>
                else w)
           | None \<Rightarrow> w\<lparr>interactionState := idleState, hoverStartTimeRef := 0\<rparr>))"

definition handBranch_p3a ::
  "Asset list \<Rightarrow> Window \<Rightarrow> real \<Rightarrow> string \<Rightarrow> Gesture \<Rightarrow> string option \<Rightarrow> string option \<Rightarrow>
   StickerItem list \<Rightarrow> InteractionState \<Rightarrow> World \<Rightarrow> World" where
  "handBranch_p3a assets win now stamp g btnAsset btnCat stickersRef currentState w =
     (if isResizingGesture g \<and>
         (truthyStr (i_targetId currentState) \<or> i_status currentState = Hovering)
      then resizingMode g currentState w
      else if isDraggingSticker currentState then
        (case i_targetId currentState of
           None \<Rightarrow> w
         | Some target \<Rightarrow> draggingMode handleHandDrop_p3a now g target w)
      else selectionMode_p3a assets win now stamp g btnAsset btnCat stickersRef currentState w)"

text \<open>
  The interaction section of the rewritten component, part_003 lines 445 to 541: the
  section is one \<open>if (handDetected && !isPlaying)\<close> with no other branch.
\<close>

definition interactionLogic_p3a ::
  "Asset list \<Rightarrow> Window \<Rightarrow> real \<Rightarrow> string \<Rightarrow> Gesture \<Rightarrow> string option \<Rightarrow> string option \<Rightarrow>
   StickerItem list \<Rightarrow> InteractionState \<Rightarrow> World \<Rightarrow> World" where
  "interactionLogic_p3a assets win now stamp g btnAsset btnCat stickersRef currentState w =
     (if handDetected g \<and> \<not> isPlaying w
      then handBranch_p3a assets win now stamp g btnAsset btnCat stickersRef currentState w
      else w)"

text \<open>Example data: the state while the hat is being dragged, and a frame without a hand.\<close>

definition exDragState :: InteractionState where
  "exDragState = \<lparr>i_status = Dragging, i_targetId = Some ''hat-1'', i_targetType = Sticker,
     i_progress = 1 / 2\<rparr>"

definition exDragWorld :: World where
  "exDragWorld = \<lparr>stickers = [exHat], activeStickerId = Some ''hat-1'', selectedCategory = ''hats'',
     interactionState = exDragState, interactingIdRef = Some ''hat-1'',
     lastFaceDataRef = Some exAnchor, hoverStartTimeRef = 0, dropStartTimeRef = 4000,
     lastEffectSpawnTimeRef = 0, lastGestureTimeRef = 0, lastHandPosRef = None,
     isPlaying = False, score = 0, scoreRef = 0, coins = [], showWinModal = False\<rparr>"

definition exNoHand :: Gesture where
  "exNoHand = \<lparr>cursorX = 0, cursorY = 0, handDetected = False, isResizingGesture = False,
     isOpenPalm = False, pinchDistance = 0, fingerCount = 0\<rparr>"

definition exPointing :: "real \<Rightarrow> real \<Rightarrow> Gesture" where
  "exPointing x y = \<lparr>cursorX = x, cursorY = y, handDetected = True, isResizingGesture = False,
     isOpenPalm = False, pinchDistance = 3 / 10, fingerCount = 1\<rparr>"

definition exRand :: Rand where
  "exRand = \<lparr>rnd_item = 1 / 4, rnd_offsetX = 1 / 2, rnd_offsetY = 1 / 2, rnd_rotation = 1 / 2,
     rnd_effectId = ''eff-2''\<rparr>"

definition exBow :: StickerItem where
  "exBow = \<lparr>s_id = ''bow-1'', s_type = Svg, s_content = ''bowtie'', s_category = Accessories,
     s_x = 730, s_y = 300, s_scale = 1, s_rotation = 0, s_opacity = None,
     s_anchorType = ABody, s_anchorOffset = \<lparr>v_x = 0, v_y = 60\<rparr>,
     s_baseScale = 8 / 10, s_baseRotation = 0, s_createdAt = None, s_lifespan = None\<rparr>"

section \<open>Losing the hand\<close>

lemma noHandBranch_idle: "interactionState (noHandBranch videoRect currentState w) = idleState"
  by (simp add: noHandBranch_def Let_def)

lemma noHandBranch_drop:
  "isDraggingSticker currentState \<Longrightarrow> i_targetId currentState = Some target \<Longrightarrow>
   noHandBranch videoRect currentState w =
     (handleHandDrop videoRect target w)\<lparr>interactionState := idleState\<rparr>"
  by (simp add: noHandBranch_def Let_def)

lemma noHandBranch_no_drop:
  "\<not> isDraggingSticker currentState \<Longrightarrow>
   noHandBranch videoRect currentState w = w\<lparr>interactionState := idleState\<rparr>"
  by (simp add: noHandBranch_def Let_def)

text \<open>
  Part_004 and the second component of part_003: on every frame without a hand the
  interaction section ends in the idle state, and when a sticker was being dragged the
  state it ends in is the one \<open>handleHandDrop\<close> leaves for that sticker, set to idle.
\<close>

lemma no_hand_resets:
  assumes "\<not> handDetected g"
  shows "interactionState
           (interactionLogic assets win videoRect now g btn cur newId rnd currentState w) = idleState"
    and "interactionState
           (interactionLogic_p3b assets win videoRect now g btn cur newId rnd currentState w) = idleState"
    and "isDraggingSticker currentState \<Longrightarrow> i_targetId currentState = Some target \<Longrightarrow>
         interactionLogic assets win videoRect now g btn cur newId rnd currentState w =
           (handleHandDrop videoRect target w)\<lparr>interactionState := idleState\<rparr>"
    and "isDraggingSticker currentState \<Longrightarrow> i_targetId currentState = Some target \<Longrightarrow>
         interactionLogic_p3b assets win videoRect now g btn cur newId rnd currentState w =
           (handleHandDrop videoRect target w)\<lparr>interactionState := idleState\<rparr>"
  using assms
  by (simp_all add: interactionLogic_def interactionLogic_p3b_def noHandBranch_idle noHandBranch_drop)

text \<open>
  Claim C6 fails on the rewritten component of part_003: its interaction section has no
  branch for a lost hand. On a frame without a hand, entered while the hat is dragged, the
  state is left as it was: still dragging, the sticker still held in \<open>interactingIdRef\<close>, no
  drop. Part_004 on the same frame drops the hat and goes idle.
\<close>

theorem no_hand_p3a_keeps_dragging:
  "interactionLogic_p3a [exRabbit, exCap] exWindow 5000 ''5000'' exNoHand None None [exHat]
     exDragState exDragWorld = exDragWorld \<and>
   i_status (interactionState exDragWorld) = Dragging \<and>
   interactingIdRef exDragWorld = Some ''hat-1'' \<and>
   interactionState
     (interactionLogic [exRabbit, exCap] exWindow (Some \<lparr>r_width = 1000, r_height = 500\<rparr>) 5000
        exNoHand None [exHat] ''new-1'' exRand exDragState exDragWorld) = idleState \<and>
   interactingIdRef
     (interactionLogic [exRabbit, exCap] exWindow (Some \<lparr>r_width = 1000, r_height = 500\<rparr>) 5000
        exNoHand None [exHat] ''new-1'' exRand exDragState exDragWorld) = None"
  by (simp add: interactionLogic_p3a_def interactionLogic_def noHandBranch_def exNoHand_def
      exDragWorld_def exDragState_def isDraggingSticker_def handleHandDrop_def Let_def)

section \<open>Resolving the element under the cursor\<close>




definition distTo :: "real \<Rightarrow> real \<Rightarrow> StickerItem \<Rightarrow> real" where
  "distTo cx cy s = sqrt ((s_x s - cx) * (s_x s - cx) + (s_y s - cy) * (s_y s - cy))"

text \<open>
  The scan, started with an accepted distance \<open>m\<close> (or none): either no sticker of the
  list is within the radius and closer than \<open>m\<close>, and the accumulator is returned; or the
  result is the first sticker of the list at the least distance of the list.
\<close>

definition threshold :: "real option \<Rightarrow> real" where
  "threshold minDst = (case minDst of None \<Rightarrow> INTERACTION_RADIUS | Some m \<Rightarrow> min m INTERACTION_RADIUS)"

lemma scanClosest_step:
  "scanClosest cx cy (s # rest) c m =
     (if distTo cx cy s < threshold m
      then scanClosest cx cy rest (Some (s_id s)) (Some (distTo cx cy s))
      else scanClosest cx cy rest c m)"
  by (cases m) (auto simp add: Let_def distTo_def threshold_def)

lemma scanClosest_none_within:
  "\<forall>s \<in> set xs. \<not> distTo cx cy s < threshold m \<Longrightarrow> scanClosest cx cy xs c m = c"
proof (induction xs arbitrary: c m)
  case Nil
  then show ?case by simp
next
  case (Cons s rest)
  then show ?case by (simp only: scanClosest_step) simp
qed

lemma scanClosest_some_within:
  "\<exists>s \<in> set xs. distTo cx cy s < threshold m \<Longrightarrow>
   \<exists>i < length xs. scanClosest cx cy xs c m = Some (s_id (xs ! i)) \<and>
      distTo cx cy (xs ! i) < threshold m \<and>
      (\<forall>j < length xs. distTo cx cy (xs ! i) \<le> distTo cx cy (xs ! j)) \<and>
      (\<forall>j < i. distTo cx cy (xs ! i) < distTo cx cy (xs ! j))"
proof (induction xs arbitrary: c m)
  case Nil
  then show ?case by simp
next
  case (Cons s rest)
  let ?d = "distTo cx cy"
  show ?case
  proof (cases "?d s < threshold m")
    case accept: True
    have thr: "threshold (Some (?d s)) = ?d s"
      using accept by (cases m) (auto simp add: threshold_def)
    show ?thesis
    proof (cases "\<exists>t \<in> set rest. ?d t < ?d s")
      case True
      then have "\<exists>t \<in> set rest. ?d t < threshold (Some (?d s))" using thr by simp
      from Cons.IH [OF this, of "Some (s_id s)"] obtain i where i:
        "i < length rest"
        "scanClosest cx cy rest (Some (s_id s)) (Some (?d s)) = Some (s_id (rest ! i))"
        "?d (rest ! i) < ?d s"
        "\<forall>j < length rest. ?d (rest ! i) \<le> ?d (rest ! j)"
        "\<forall>j < i. ?d (rest ! i) < ?d (rest ! j)"
        using thr by auto
      have a: "scanClosest cx cy (s # rest) c m = Some (s_id ((s # rest) ! Suc i))"
        using accept i(2) by (simp only: scanClosest_step) simp
      have b: "?d ((s # rest) ! Suc i) < threshold m" using i(3) accept by simp
      have c': "\<forall>j < length (s # rest). ?d ((s # rest) ! Suc i) \<le> ?d ((s # rest) ! j)"
      proof (intro allI impI)
        fix j assume "j < length (s # rest)"
        then show "?d ((s # rest) ! Suc i) \<le> ?d ((s # rest) ! j)"
          using i(3,4) by (cases j) auto
      qed
      have d: "\<forall>j < Suc i. ?d ((s # rest) ! Suc i) < ?d ((s # rest) ! j)"
      proof (intro allI impI)
        fix j assume "j < Suc i"
        then show "?d ((s # rest) ! Suc i) < ?d ((s # rest) ! j)"
          using i(3,5) by (cases j) auto
      qed
      from a b c' d i(1) show ?thesis
        by (intro exI [of _ "Suc i"]) simp
    next
      case False
      then have none: "\<forall>t \<in> set rest. \<not> ?d t < threshold (Some (?d s))" using thr by simp
      have a: "scanClosest cx cy (s # rest) c m = Some (s_id ((s # rest) ! 0))"
        using accept scanClosest_none_within [OF none, of "Some (s_id s)"]
        by (simp only: scanClosest_step) simp
      have c': "\<forall>j < length (s # rest). ?d ((s # rest) ! 0) \<le> ?d ((s # rest) ! j)"
      proof (intro allI impI)
        fix j assume "j < length (s # rest)"
        then show "?d ((s # rest) ! 0) \<le> ?d ((s # rest) ! j)"
          using False by (cases j) (auto simp add: not_less)
      qed
      from a c' accept show ?thesis
        by (intro exI [of _ 0]) simp
    qed
  next
    case reject: False
    then have ex: "\<exists>t \<in> set rest. ?d t < threshold m" using Cons.prems by auto
    from Cons.IH [OF ex, of c] obtain i where i:
      "i < length rest"
      "scanClosest cx cy rest c m = Some (s_id (rest ! i))"
      "?d (rest ! i) < threshold m"
      "\<forall>j < length rest. ?d (rest ! i) \<le> ?d (rest ! j)"
      "\<forall>j < i. ?d (rest ! i) < ?d (rest ! j)"
      by auto
    have a: "scanClosest cx cy (s # rest) c m = Some (s_id ((s # rest) ! Suc i))"
      using reject i(2) by (simp only: scanClosest_step) simp
    have lt: "?d (rest ! i) < ?d s" using reject i(3) by simp
    have c': "\<forall>j < length (s # rest). ?d ((s # rest) ! Suc i) \<le> ?d ((s # rest) ! j)"
    proof (intro allI impI)
      fix j assume "j < length (s # rest)"
      then show "?d ((s # rest) ! Suc i) \<le> ?d ((s # rest) ! j)"
        using lt i(4) by (cases j) auto
    qed
    have d: "\<forall>j < Suc i. ?d ((s # rest) ! Suc i) < ?d ((s # rest) ! j)"
    proof (intro allI impI)
      fix j assume "j < Suc i"
      then show "?d ((s # rest) ! Suc i) < ?d ((s # rest) ! j)"
        using lt i(5) by (cases j) auto
    qed
    from a i(1,3) c' d show ?thesis
      by (intro exI [of _ "Suc i"]) simp
  qed
qed

lemma closestSticker_none:
  "\<forall>s \<in> set (filter (\<lambda>s. \<not> truthyNum (s_lifespan s)) cur). \<not> distTo cx cy s < INTERACTION_RADIUS
   \<Longrightarrow> closestSticker cx cy cur = None"
  using scanClosest_none_within [of "filter (\<lambda>s. \<not> truthyNum (s_lifespan s)) cur" cx cy None None]
  by (simp add: closestSticker_def threshold_def)

lemma closestSticker_nearest:
  assumes "\<exists>s \<in> set (filter (\<lambda>s. \<not> truthyNum (s_lifespan s)) cur). distTo cx cy s < INTERACTION_RADIUS"
  shows "\<exists>i < length (filter (\<lambda>s. \<not> truthyNum (s_lifespan s)) cur).
           closestSticker cx cy cur = Some (s_id (filter (\<lambda>s. \<not> truthyNum (s_lifespan s)) cur ! i)) \<and>
           distTo cx cy (filter (\<lambda>s. \<not> truthyNum (s_lifespan s)) cur ! i) < INTERACTION_RADIUS \<and>
           (\<forall>j < length (filter (\<lambda>s. \<not> truthyNum (s_lifespan s)) cur).
              distTo cx cy (filter (\<lambda>s. \<not> truthyNum (s_lifespan s)) cur ! i)
                \<le> distTo cx cy (filter (\<lambda>s. \<not> truthyNum (s_lifespan s)) cur ! j)) \<and>
           (\<forall>j < i. distTo cx cy (filter (\<lambda>s. \<not> truthyNum (s_lifespan s)) cur ! i)
                < distTo cx cy (filter (\<lambda>s. \<not> truthyNum (s_lifespan s)) cur ! j))"
  using scanClosest_some_within [of "filter (\<lambda>s. \<not> truthyNum (s_lifespan s)) cur" cx cy None None]
    assms
  by (simp add: closestSticker_def threshold_def)

text \<open>The scan only ever returns the identifier of a sticker without a lifespan.\<close>

lemma closestSticker_interactable:
  assumes "closestSticker cx cy cur = Some sid"
  shows "\<exists>s \<in> set cur. s_id s = sid \<and> \<not> truthyNum (s_lifespan s) \<and>
           distTo cx cy s < INTERACTION_RADIUS"
proof -
  let ?xs = "filter (\<lambda>s. \<not> truthyNum (s_lifespan s)) cur"
  have "\<exists>s \<in> set ?xs. distTo cx cy s < INTERACTION_RADIUS"
  proof (rule ccontr)
    assume "\<not> (\<exists>s \<in> set ?xs. distTo cx cy s < INTERACTION_RADIUS)"
    then have "closestSticker cx cy cur = None" using closestSticker_none [of cur cx cy] by blast
    then show False using assms by simp
  qed
  from closestSticker_nearest [OF this] obtain i where i: "i < length ?xs"
    "closestSticker cx cy cur = Some (s_id (?xs ! i))" "distTo cx cy (?xs ! i) < INTERACTION_RADIUS"
    by blast
  have "?xs ! i \<in> set ?xs" using i(1) by (rule nth_mem)
  then have "?xs ! i \<in> set cur \<and> \<not> truthyNum (s_lifespan (?xs ! i))" by simp
  then show ?thesis using i(2,3) assms by auto
qed

lemma hoverSticker_target:
  "i_targetId (interactionState (hoverSticker now (interactionState w) closestId w)) =
     (if truthyStr closestId then closestId else None) \<or>
   i_targetId (interactionState (hoverSticker now (interactionState w) closestId w)) =
     i_targetId (interactionState w)"
  by (cases closestId) (auto simp add: hoverSticker_def Let_def idleState_def)








lemma targetUnderCursor_p3a_sticker:
  "targetUnderCursor_p3a None None cx cy ref =
     (case find (\<lambda>s. distTo cx cy s < INTERACTION_RADIUS) (rev ref) of
        Some s \<Rightarrow> (Some (s_id s), Sticker)
      | None \<Rightarrow> (None, Sticker))"
  by (simp add: targetUnderCursor_p3a_def hypot_def distTo_def)



text \<open>
  Example data: an effect sticker as the spawner of the rewritten component builds it
  (part_003 lines 416 to 432), and the idle state with the hat and that effect in the store.
\<close>

definition exEffect_p3a :: StickerItem where
  "exEffect_p3a =
     \<lparr>s_id = ''fx-5000'', s_type = Emoji, s_content = ''carrot'', s_category = Accessories,
      s_x = 700, s_y = 500, s_scale = 1, s_rotation = 90, s_opacity = Some 1,
      s_anchorType = ANone, s_anchorOffset = \<lparr>v_x = 0, v_y = 0\<rparr>,
      s_baseScale = 1, s_baseRotation = 0,
      s_createdAt = Some 5000, s_lifespan = Some EFFECT_LIFESPAN_p3a\<rparr>"

definition exIdleWorld :: World where
  "exIdleWorld = \<lparr>stickers = [exHat, exEffect_p3a], activeStickerId = None,
     selectedCategory = ''hats'', interactionState = idleState, interactingIdRef = None,
     lastFaceDataRef = Some exAnchor, hoverStartTimeRef = 0, dropStartTimeRef = 0,
     lastEffectSpawnTimeRef = 5000, lastGestureTimeRef = 0, lastHandPosRef = None,
     isPlaying = False, score = 0, scoreRef = 0, coins = [], showWinModal = False\<rparr>"

lemma exDistances:
  "distTo 720 300 exHat = 20" "distTo 720 300 exBow = 10"
  "distTo 700 300 exHat = 0" "distTo 700 300 exBow = 30"
  "distTo 700 500 exEffect_p3a = 0" "distTo 700 500 exHat = 200"
  by (simp_all add: distTo_def exHat_def exBow_def exEffect_p3a_def)



section \<open>Stickers with a lifespan as targets\<close>

text \<open>
  Part_004 and the second component of part_003: whatever the frame, a sticker target
  resolved by the scan is a sticker without a lifespan, so where identifiers are distinct
  no sticker with a lifespan is resolved.
\<close>

lemma closestSticker_skips_lifespan:
  assumes "distinct (map s_id cur)" and "s \<in> set cur" and "truthyNum (s_lifespan s)"
  shows "closestSticker cx cy cur \<noteq> Some (s_id s)"
proof
  assume "closestSticker cx cy cur = Some (s_id s)"
  from closestSticker_interactable [OF this] obtain t where
    t: "t \<in> set cur" "s_id t = s_id s" "\<not> truthyNum (s_lifespan t)" by blast
  have "t = s" using assms(1,2) t(1,2) by (meson distinct_map inj_onD)
  then show False using t(3) assms(3) by simp
qed

text \<open>
  Claim C10 fails on the rewritten component of part_003, whose scan reads every sticker
  of the store. With the cursor on a live effect sticker the sticker becomes the hover
  target, and 2500 ms later, still alive, the drag target. The scan of part_004 finds no
  target in the same store.
\<close>

theorem lifespan_sticker_targeted_p3a:
  "truthyNum (s_lifespan exEffect_p3a) \<and>
   targetUnderCursor_p3a None None 700 500 [exHat, exEffect_p3a] = (Some ''fx-5000'', Sticker) \<and>
   interactionLogic_p3a [exRabbit, exCap] exWindow 5100 ''5100'' (exPointing 700 500) None None
     [exHat, exEffect_p3a] idleState exIdleWorld =
     exIdleWorld\<lparr>hoverStartTimeRef := 5100,
       interactionState := \<lparr>i_status = Hovering, i_targetId = Some ''fx-5000'',
                            i_targetType = Sticker, i_progress = 0\<rparr>\<rparr> \<and>
   alive 7600 exEffect_p3a \<and>
   interactionLogic_p3a [exRabbit, exCap] exWindow 7600 ''7600'' (exPointing 700 500) None None
     [exHat, exEffect_p3a]
     \<lparr>i_status = Hovering, i_targetId = Some ''fx-5000'', i_targetType = Sticker, i_progress = 0\<rparr>
     (exIdleWorld\<lparr>hoverStartTimeRef := 5100,
       interactionState := \<lparr>i_status = Hovering, i_targetId = Some ''fx-5000'',
                            i_targetType = Sticker, i_progress = 0\<rparr>\<rparr>) =
     exIdleWorld\<lparr>hoverStartTimeRef := 0, interactingIdRef := Some ''fx-5000'',
       activeStickerId := Some ''fx-5000'',
       interactionState := \<lparr>i_status = Dragging, i_targetId = Some ''fx-5000'',
                            i_targetType = Sticker, i_progress = 0\<rparr>\<rparr> \<and>
   closestSticker 700 500 [exHat, exEffect_p3a] = None"
proof -
  have t: "targetUnderCursor_p3a None None 700 500 [exHat, exEffect_p3a] = (Some ''fx-5000'', Sticker)"
    by (simp add: targetUnderCursor_p3a_sticker exDistances INTERACTION_RADIUS_def)
       (simp add: exEffect_p3a_def)
  have l: "truthyNum (s_lifespan exEffect_p3a)" "alive 7600 exEffect_p3a"
    by (simp_all add: exEffect_p3a_def EFFECT_LIFESPAN_p3a_def alive_def)
  have g: "handDetected (exPointing 700 500)" "\<not> isResizingGesture (exPointing 700 500)"
    "cursorX (exPointing 700 500) = 700" "cursorY (exPointing 700 500) = 500"
    by (simp_all add: exPointing_def)
  have s1: "interactionLogic_p3a [exRabbit, exCap] exWindow 5100 ''5100'' (exPointing 700 500) None None
     [exHat, exEffect_p3a] idleState exIdleWorld =
     exIdleWorld\<lparr>hoverStartTimeRef := 5100,
       interactionState := \<lparr>i_status = Hovering, i_targetId = Some ''fx-5000'',
                            i_targetType = Sticker, i_progress = 0\<rparr>\<rparr>"
    by (simp add: interactionLogic_p3a_def handBranch_p3a_def selectionMode_p3a_def g t
        isDraggingSticker_def idleState_def exIdleWorld_def)
  have s2: "interactionLogic_p3a [exRabbit, exCap] exWindow 7600 ''7600'' (exPointing 700 500) None None
     [exHat, exEffect_p3a]
     \<lparr>i_status = Hovering, i_targetId = Some ''fx-5000'', i_targetType = Sticker, i_progress = 0\<rparr>
     (exIdleWorld\<lparr>hoverStartTimeRef := 5100,
       interactionState := \<lparr>i_status = Hovering, i_targetId = Some ''fx-5000'',
                            i_targetType = Sticker, i_progress = 0\<rparr>\<rparr>) =
     exIdleWorld\<lparr>hoverStartTimeRef := 0, interactingIdRef := Some ''fx-5000'',
       activeStickerId := Some ''fx-5000'',
       interactionState := \<lparr>i_status = Dragging, i_targetId = Some ''fx-5000'',
                            i_targetType = Sticker, i_progress = 0\<rparr>\<rparr>"
    by (simp add: interactionLogic_p3a_def handBranch_p3a_def selectionMode_p3a_def g t
        isDraggingSticker_def exIdleWorld_def HOVER_THRESHOLD_MS_def Let_def)
  have c: "closestSticker 700 500 [exHat, exEffect_p3a] = None"
  proof (rule closestSticker_none)
    have "filter (\<lambda>s. \<not> truthyNum (s_lifespan s)) [exHat, exEffect_p3a] = [exHat]"
      by (simp add: exHat_def exEffect_p3a_def EFFECT_LIFESPAN_p3a_def)
    then show "\<forall>s\<in>set (filter (\<lambda>s. \<not> truthyNum (s_lifespan s)) [exHat, exEffect_p3a]).
       \<not> distTo 700 500 s < INTERACTION_RADIUS"
      by (simp add: exDistances INTERACTION_RADIUS_def)
  qed
  from l t s1 s2 c show ?thesis by blast
qed

section \<open>Dropping a dragged sticker\<close>

text \<open>
  Claim C3 fails on the rewritten component of part_003, whose \<open>handleHandDrop\<close> converts
  nothing. The hat, dragged to \<open>(700, 300)\<close> at scale \<open>2\<close> and rotation \<open>15\<close>, is dropped when
  the drop timer runs out; the store is unchanged by the drop, and the next anchoring pass
  moves the hat to \<open>(1500, 1250)\<close> at scale \<open>25/32\<close> and rotation \<open>0\<close>. Part_004, on the same
  frames, leaves the hat where it was dropped.
\<close>

theorem drop_not_kept_p3a:
  "interactionLogic_p3a [exRabbit, exCap] exWindow 5500 ''5500'' (exPointing 700 300) None None
     [exHat] exDragState exDragWorld =
     exDragWorld\<lparr>interactionState := idleState, interactingIdRef := None,
       activeStickerId := None, dropStartTimeRef := 0\<rparr> \<and>
   faceAnchoringSection_p3a (Some exFaceResult) 1000 500
     (exDragWorld\<lparr>interactionState := idleState, interactingIdRef := None,
        activeStickerId := None, dropStartTimeRef := 0\<rparr>) =
     Inr (exDragWorld\<lparr>interactionState := idleState, interactingIdRef := None,
        activeStickerId := None, dropStartTimeRef := 0,
        stickers := [exHat\<lparr>s_x := 1500, s_y := 1250, s_scale := 25 / 32, s_rotation := 0\<rparr>]\<rparr>) \<and>
   s_x exHat = 700 \<and> s_y exHat = 300 \<and> s_scale exHat = 2 \<and> s_rotation exHat = 15 \<and>
   (\<exists>w. faceTrackingSection (Some exFaceResult) 1000 500 idleState
          (interactionLogic [exRabbit, exCap] exWindow (Some \<lparr>r_width = 1000, r_height = 500\<rparr>) 5500
             (exPointing 700 300) None [exHat] ''new-1'' exRand exDragState exDragWorld) = Inr w \<and>
        map (\<lambda>s. (s_x s, s_y s, s_scale s, s_rotation s)) (stickers w) = [(700, 300, 2, 15)])"
proof -
  have g: "handDetected (exPointing 700 300)" "\<not> isResizingGesture (exPointing 700 300)"
    "\<not> isOpenPalm (exPointing 700 300)"
    "cursorX (exPointing 700 300) = 700" "cursorY (exPointing 700 300) = 300"
    by (simp_all add: exPointing_def)
  have d: "isDraggingSticker exDragState" "i_targetId exDragState = Some ''hat-1''"
    by (simp_all add: isDraggingSticker_def exDragState_def)
  have a: "interactionLogic_p3a [exRabbit, exCap] exWindow 5500 ''5500'' (exPointing 700 300) None None
     [exHat] exDragState exDragWorld =
     exDragWorld\<lparr>interactionState := idleState, interactingIdRef := None,
       activeStickerId := None, dropStartTimeRef := 0\<rparr>"
    by (simp add: interactionLogic_p3a_def handBranch_p3a_def g d draggingMode_def
        handleHandDrop_p3a_def DROP_THRESHOLD_MS_def Let_def)
       (simp add: exDragWorld_def exHat_def exPointing_def)
  have b: "faceAnchoringSection_p3a (Some exFaceResult) 1000 500
     (exDragWorld\<lparr>interactionState := idleState, interactingIdRef := None,
        activeStickerId := None, dropStartTimeRef := 0\<rparr>) =
     Inr (exDragWorld\<lparr>interactionState := idleState, interactingIdRef := None,
        activeStickerId := None, dropStartTimeRef := 0,
        stickers := [exHat\<lparr>s_x := 1500, s_y := 1250, s_scale := 25 / 32, s_rotation := 0\<rparr>]\<rparr>)"
    by (simp add: faceAnchoringSection_p3a_def faceAnchoring_p3a_def exFaceResult_map
        exFaceResult_nonempty anchorSticker_p3a_def idleState_def Let_def exDragWorld_def
        exHat_def exAnchor_def)
  have c: "s_x exHat = 700 \<and> s_y exHat = 300 \<and> s_scale exHat = 2 \<and> s_rotation exHat = 15"
    by (simp add: exHat_def)
  have p4: "interactionLogic [exRabbit, exCap] exWindow (Some \<lparr>r_width = 1000, r_height = 500\<rparr>) 5500
             (exPointing 700 300) None [exHat] ''new-1'' exRand exDragState exDragWorld =
      exDragWorld\<lparr>interactionState := idleState, interactingIdRef := None, dropStartTimeRef := 0,
        stickers := [exHat\<lparr>s_anchorOffset := \<lparr>v_x = 200, v_y = 50\<rparr>, s_baseScale := 2,
                            s_baseRotation := 15\<rparr>]\<rparr>"
    by (simp add: interactionLogic_def handBranch_def effectSpawn_def g d draggingMode_def
        handleHandDrop_def dropConversion_def DROP_THRESHOLD_MS_def Let_def)
       (simp add: exDragWorld_def exHat_def exAnchor_def exPointing_def)
  have e: "\<exists>w. faceTrackingSection (Some exFaceResult) 1000 500 idleState
          (interactionLogic [exRabbit, exCap] exWindow (Some \<lparr>r_width = 1000, r_height = 500\<rparr>) 5500
             (exPointing 700 300) None [exHat] ''new-1'' exRand exDragState exDragWorld) = Inr w \<and>
        map (\<lambda>s. (s_x s, s_y s, s_scale s, s_rotation s)) (stickers w) = [(700, 300, 2, 15)]"
    unfolding p4
    by (simp add: faceTrackingSection_def faceTracking_def exFaceResult_nonempty anchorSticker_def
        exFaceResult_anchor idleState_def Let_def exDragWorld_def exHat_def exAnchor_def)
  from a b c e show ?thesis by blast
qed

section \<open>Starting the coin game\<close>

text \<open>
  The game button of the rewritten component (part_003 lines 675 to 690): one button that
  toggles the game mode and, when it turns the mode on, resets the game and keeps only the
  face stickers.
\<close>

definition gameButtonClick_p3a :: "World \<Rightarrow> World" where
  "gameButtonClick_p3a w =
     (let w1 = w\<lparr>isPlaying := \<not> isPlaying w\<rparr>
      in if \<not> isPlaying w
         then w1\<lparr>score := 0, scoreRef := 0, coins := [],
                 stickers := filter (\<lambda>s. s_category s = Faces) (stickers w1)\<rparr>
         else w1)"

text \<open>
  \<open>handleStartGame\<close> of the second component of part_003 (lines 1300 to 1311); without a
  face sticker it shows an alert and returns.
\<close>

definition handleStartGame :: "World \<Rightarrow> World" where
  "handleStartGame w =
     (let hasFace = list_ex (\<lambda>s. s_category s = Faces) (stickers w)
      in if \<not> hasFace then w
         else w\<lparr>score := 0, scoreRef := 0, coins := [], isPlaying := True, showWinModal := False\<rparr>)"

text \<open>Example data: a store with the rabbit face and the hat, some coins left from a game.\<close>

definition exFace :: StickerItem where
  "exFace = newItem_handleAddSticker exWindow exRabbit ''face-1'' None None"

definition exGameWorld :: World where
  "exGameWorld = \<lparr>stickers = [exFace, exHat], activeStickerId = None, selectedCategory = ''faces'',
     interactionState = idleState, interactingIdRef = None, lastFaceDataRef = Some exAnchor,
     hoverStartTimeRef = 0, dropStartTimeRef = 0, lastEffectSpawnTimeRef = 0,
     lastGestureTimeRef = 0, lastHandPosRef = None, isPlaying = False, score = 120,
     scoreRef = 120,
     coins = [\<lparr>c_id = ''coin-1'', c_x = 500, c_y = 40, c_scale = 1, c_value = 10, c_collected = False\<rparr>],
     showWinModal = True\<rparr>"

lemma gameButtonClick_p3a_on:
  assumes "\<not> isPlaying w"
  shows "gameButtonClick_p3a w =
           w\<lparr>isPlaying := True, score := 0, scoreRef := 0, coins := [],
             stickers := filter (\<lambda>s. s_category s = Faces) (stickers w)\<rparr>"
  using assms by (simp add: gameButtonClick_p3a_def Let_def)

lemma handleStartGame_on:
  assumes "list_ex (\<lambda>s. s_category s = Faces) (stickers w)"
  shows "handleStartGame w =
           w\<lparr>score := 0, scoreRef := 0, coins := [], isPlaying := True, showWinModal := False\<rparr>"
  using assms by (simp add: handleStartGame_def Let_def)

lemma handleStartGame_off:
  assumes "\<not> list_ex (\<lambda>s. s_category s = Faces) (stickers w)"
  shows "handleStartGame w = w"
  using assms by (simp add: handleStartGame_def Let_def)

text \<open>
  Claim C7, as the code has it. The game button of the rewritten component of part_003,
  pressed while the game is off, turns the game on, resets the score to \<open>0\<close>, clears the
  coins and removes from the store every sticker whose category is not faces, keeping the
  face stickers in their order. \<open>handleStartGame\<close> of the second component of part_003
  turns the game on only when the store holds a face sticker; it then resets the score to
  \<open>0\<close> and clears the coins and leaves the store as it is; without a face sticker it
  changes nothing.
\<close>

theorem game_activation:
  "(\<not> isPlaying w \<longrightarrow>
      isPlaying (gameButtonClick_p3a w) \<and>
      score (gameButtonClick_p3a w) = 0 \<and> scoreRef (gameButtonClick_p3a w) = 0 \<and>
      coins (gameButtonClick_p3a w) = [] \<and>
      stickers (gameButtonClick_p3a w) = filter (\<lambda>s. s_category s = Faces) (stickers w) \<and>
      (\<forall>s \<in> set (stickers (gameButtonClick_p3a w)). s_category s = Faces) \<and>
      (\<forall>s \<in> set (stickers w). s_category s = Faces \<longrightarrow> s \<in> set (stickers (gameButtonClick_p3a w)))) \<and>
   (list_ex (\<lambda>s. s_category s = Faces) (stickers w) \<longrightarrow>
      isPlaying (handleStartGame w) \<and>
      score (handleStartGame w) = 0 \<and> scoreRef (handleStartGame w) = 0 \<and>
      coins (handleStartGame w) = [] \<and>
      stickers (handleStartGame w) = stickers w) \<and>
   (\<not> list_ex (\<lambda>s. s_category s = Faces) (stickers w) \<longrightarrow> handleStartGame w = w)"
proof -
  have a: "\<not> isPlaying w \<longrightarrow>
      isPlaying (gameButtonClick_p3a w) \<and>
      score (gameButtonClick_p3a w) = 0 \<and> scoreRef (gameButtonClick_p3a w) = 0 \<and>
      coins (gameButtonClick_p3a w) = [] \<and>
      stickers (gameButtonClick_p3a w) = filter (\<lambda>s. s_category s = Faces) (stickers w) \<and>
      (\<forall>s \<in> set (stickers (gameButtonClick_p3a w)). s_category s = Faces) \<and>
      (\<forall>s \<in> set (stickers w). s_category s = Faces \<longrightarrow> s \<in> set (stickers (gameButtonClick_p3a w)))"
  proof
    assume "\<not> isPlaying w"
    then have e: "gameButtonClick_p3a w =
           w\<lparr>isPlaying := True, score := 0, scoreRef := 0, coins := [],
             stickers := filter (\<lambda>s. s_category s = Faces) (stickers w)\<rparr>"
      by (rule gameButtonClick_p3a_on)
    show "isPlaying (gameButtonClick_p3a w) \<and>
      score (gameButtonClick_p3a w) = 0 \<and> scoreRef (gameButtonClick_p3a w) = 0 \<and>
      coins (gameButtonClick_p3a w) = [] \<and>
      stickers (gameButtonClick_p3a w) = filter (\<lambda>s. s_category s = Faces) (stickers w) \<and>
      (\<forall>s \<in> set (stickers (gameButtonClick_p3a w)). s_category s = Faces) \<and>
      (\<forall>s \<in> set (stickers w). s_category s = Faces \<longrightarrow> s \<in> set (stickers (gameButtonClick_p3a w)))"
      unfolding e by simp
  qed
  have b: "list_ex (\<lambda>s. s_category s = Faces) (stickers w) \<longrightarrow>
      isPlaying (handleStartGame w) \<and>
      score (handleStartGame w) = 0 \<and> scoreRef (handleStartGame w) = 0 \<and>
      coins (handleStartGame w) = [] \<and>
      stickers (handleStartGame w) = stickers w"
  proof
    assume "list_ex (\<lambda>s. s_category s = Faces) (stickers w)"
    then have e: "handleStartGame w =
           w\<lparr>score := 0, scoreRef := 0, coins := [], isPlaying := True, showWinModal := False\<rparr>"
      by (rule handleStartGame_on)
    show "isPlaying (handleStartGame w) \<and>
      score (handleStartGame w) = 0 \<and> scoreRef (handleStartGame w) = 0 \<and>
      coins (handleStartGame w) = [] \<and>
      stickers (handleStartGame w) = stickers w"
      unfolding e by simp
  qed
  have c: "\<not> list_ex (\<lambda>s. s_category s = Faces) (stickers w) \<longrightarrow> handleStartGame w = w"
    using handleStartGame_off by blast
  from a b c show ?thesis by blast
qed

theorem game_activation_witness:
  "isPlaying (gameButtonClick_p3a exGameWorld) \<and>
   score (gameButtonClick_p3a exGameWorld) = 0 \<and>
   coins (gameButtonClick_p3a exGameWorld) = [] \<and>
   stickers (gameButtonClick_p3a exGameWorld) = [exFace] \<and>
   isPlaying (handleStartGame exGameWorld) \<and>
   score (handleStartGame exGameWorld) = 0 \<and>
   coins (handleStartGame exGameWorld) = [] \<and>
   stickers (handleStartGame exGameWorld) = [exFace, exHat] \<and>
   handleStartGame (exGameWorld\<lparr>stickers := [exHat]\<rparr>) = exGameWorld\<lparr>stickers := [exHat]\<rparr>"
proof -
  have p: "\<not> isPlaying exGameWorld" by (simp add: exGameWorld_def)
  have st: "stickers exGameWorld = [exFace, exHat]" by (simp add: exGameWorld_def)
  have c: "s_category exFace = Faces" "s_category exHat \<noteq> Faces"
    by (simp_all add: exFace_def newItem_handleAddSticker_def exRabbit_def exHat_def)
  have f: "list_ex (\<lambda>s. s_category s = Faces) (stickers exGameWorld)"
    "\<not> list_ex (\<lambda>s. s_category s = Faces) (stickers (exGameWorld\<lparr>stickers := [exHat]\<rparr>))"
    "filter (\<lambda>s. s_category s = Faces) (stickers exGameWorld) = [exFace]"
    using c by (simp_all add: st)
  note i1 = game_activation [of exGameWorld]
  note i2 = game_activation [of "exGameWorld\<lparr>stickers := [exHat]\<rparr>"]
  from i1 p f(3) have a: "isPlaying (gameButtonClick_p3a exGameWorld) \<and>
      score (gameButtonClick_p3a exGameWorld) = 0 \<and>
      coins (gameButtonClick_p3a exGameWorld) = [] \<and>
      stickers (gameButtonClick_p3a exGameWorld) = [exFace]"
    by metis
  from i1 f(1) st have b: "isPlaying (handleStartGame exGameWorld) \<and>
      score (handleStartGame exGameWorld) = 0 \<and>
      coins (handleStartGame exGameWorld) = [] \<and>
      stickers (handleStartGame exGameWorld) = [exFace, exHat]"
    by metis
  from i2 f(2) have c:
    "handleStartGame (exGameWorld\<lparr>stickers := [exHat]\<rparr>) = exGameWorld\<lparr>stickers := [exHat]\<rparr>"
    by blast
  from a b c show ?thesis by blast
qed

text \<open>
  The claim as written fails on the second component of part_003: \<open>handleStartGame\<close> turns
  the game on and the hat, whose category is not faces, is still in the store.
\<close>

theorem game_start_keeps_stickers_counterexample:
  "isPlaying (handleStartGame exGameWorld) \<and>
   stickers (handleStartGame exGameWorld) = [exFace, exHat] \<and>
   s_category exHat = Hats"
  by (simp add: handleStartGame_def exGameWorld_def exFace_def newItem_handleAddSticker_def
      exRabbit_def exHat_def Let_def)

section \<open>Hand processing and swipe recognition\<close>







text \<open>
  The nine points of the 21-point hand landmark set that the loop reads (part_004 lines
  148 to 160). Reading a coordinate of a missing point throws, and every one of the nine
  is read before the section changes anything.
\<close>

record HandPoints =
  thumbTip :: NormalizedLandmark
  indexTip :: NormalizedLandmark
  middleTip :: NormalizedLandmark
  ringTip :: NormalizedLandmark
  pinkyTip :: NormalizedLandmark
  indexMCP :: NormalizedLandmark
  middleMCP :: NormalizedLandmark
  ringMCP :: NormalizedLandmark
  pinkyMCP :: NormalizedLandmark

definition readHand :: "NormalizedLandmark list \<Rightarrow> error + HandPoints" where
  "readHand handLandmarks =
     (case (elemAt handLandmarks 4, elemAt handLandmarks 8, elemAt handLandmarks 12,
            elemAt handLandmarks 16, elemAt handLandmarks 20, elemAt handLandmarks 5,
            elemAt handLandmarks 9, elemAt handLandmarks 13, elemAt handLandmarks 17) of
        (Some p4, Some p8, Some p12, Some p16, Some p20, Some p5, Some p9, Some p13, Some p17) \<Rightarrow>
          Inr \<lparr>thumbTip = p4, indexTip = p8, middleTip = p12, ringTip = p16, pinkyTip = p20,
               indexMCP = p5, middleMCP = p9, ringMCP = p13, pinkyMCP = p17\<rparr>
      | _ \<Rightarrow> Inl TypeError)"
















section \<open>Properties of swipe recognition\<close>





























end
